theory Spec2Isabelle
  imports Complex_Main "HOL-Library.AList"
begin

section \<open>Python values, failure and dictionaries\<close>

text \<open>
  The criterion of \<^verbatim>\<open>models/detr.py\<close> is embedded function by function. Every
  \<^verbatim>\<open>raise\<close>, failed \<^verbatim>\<open>assert\<close> and failed lookup of the Python code is a value
  \<open>Inl e\<close>; a call that returns is \<open>Inr v\<close>. \<open>NotModelled\<close> marks the few tensor shapes
  that the library functions accept but this development does not follow; it is never
  counted as a failure of the program.
\<close>

datatype error = AssertionError | KeyError | IndexError | TypeError | ValueError
  | RuntimeError | StopIteration | AttributeError | NotModelled

definition and_then :: "error + 'a \<Rightarrow> ('a \<Rightarrow> error + 'b) \<Rightarrow> error + 'b" where
  "and_then m f = (case m of Inl e \<Rightarrow> Inl e | Inr x \<Rightarrow> f x)"

text \<open>A list comprehension evaluates its elements in order; the first failure ends it.\<close>

fun collect :: "(error + 'a) list \<Rightarrow> error + 'a list" where
  "collect [] = Inr []"
| "collect (m # ms) = and_then m (\<lambda>x. and_then (collect ms) (\<lambda>xs. Inr (x # xs)))"

definition py_assert :: "bool \<Rightarrow> error + unit" where
  "py_assert b = (if b then Inr () else Inl AssertionError)"

text \<open>A \<^verbatim>\<open>dict\<close> keeps insertion order: an association list with distinct keys.\<close>

type_synonym 'v dict = "(string \<times> 'v) list"

definition has_key :: "string \<Rightarrow> 'v dict \<Rightarrow> bool" where
  "has_key k d = (k \<in> set (map fst d))"

definition getitem :: "'v dict \<Rightarrow> string \<Rightarrow> error + 'v" where
  "getitem d k = (case map_of d k of None \<Rightarrow> Inl KeyError | Some v \<Rightarrow> Inr v)"

text \<open>\<^verbatim>\<open>d.update(e)\<close>: keys of \<open>e\<close> already in \<open>d\<close> are overwritten in place, new ones appended.\<close>

definition dict_update :: "'v dict \<Rightarrow> 'v dict \<Rightarrow> 'v dict" where
  "dict_update d e = fold (\<lambda>(k, v). AList.update k v) e d"

section \<open>Tensors\<close>

text \<open>
  A tensor is its shape, its elements in row-major order and the autograd flag
  \<^verbatim>\<open>requires_grad\<close>. Elements are real numbers: \<^verbatim>\<open>float32\<close> rounding, overflow,
  \<^verbatim>\<open>inf\<close> and \<^verbatim>\<open>nan\<close> are outside the model, so statements about values carry the
  hypotheses that keep the computation away from division by zero. Integer tensors hold
  integral reals. Every operation takes the grad mode \<open>gm\<close> of the enclosing scope
  (\<open>False\<close> inside \<^verbatim>\<open>torch.no_grad()\<close>): its result requires grad iff the mode is on and
  an input does.
\<close>

datatype tensor = Tensor (shape: "nat list") (vals: "real list") (requires_grad: bool)

definition numel :: "nat list \<Rightarrow> nat" where
  "numel s = prod_list s"

definition wf_tensor :: "tensor \<Rightarrow> bool" where
  "wf_tensor t = (length (vals t) = numel (shape t))"

definition scalar :: "bool \<Rightarrow> real \<Rightarrow> tensor" where
  "scalar rg v = Tensor [] [v] rg"

text \<open>The \<open>k\<close>-th block of width \<open>w\<close> of a row-major element list.\<close>

definition row_at :: "nat \<Rightarrow> real list \<Rightarrow> nat \<Rightarrow> real list" where
  "row_at w xs k = take w (drop (k * w) xs)"

definition rows :: "nat \<Rightarrow> nat \<Rightarrow> real list \<Rightarrow> real list list" where
  "rows n w xs = map (row_at w xs) [0..<n]"

text \<open>Python and PyTorch indices: \<open>-n \<le> i < n\<close>, negative ones count from the end.\<close>

definition norm_index :: "nat \<Rightarrow> int \<Rightarrow> error + nat" where
  "norm_index n i =
     (if 0 \<le> i \<and> i < int n then Inr (nat i)
      else if - int n \<le> i \<and> i < 0 then Inr (nat (i + int n))
      else Inl IndexError)"

text \<open>Two index tensors used together are broadcast against each other.\<close>

definition broadcast_idx :: "int list \<Rightarrow> int list \<Rightarrow> error + (int \<times> int) list" where
  "broadcast_idx is js =
     (if length is = length js then Inr (zip is js)
      else if length is = 1 then Inr (map (Pair (hd is)) js)
      else if length js = 1 then Inr (map (\<lambda>i. (i, hd js)) is)
      else Inl IndexError)"

definition flat_index2 :: "nat \<Rightarrow> nat \<Rightarrow> int \<times> int \<Rightarrow> error + nat" where
  "flat_index2 d0 d1 p =
     and_then (norm_index d0 (fst p)) (\<lambda>b.
     and_then (norm_index d1 (snd p)) (\<lambda>q. Inr (b * d1 + q)))"

text \<open>\<^verbatim>\<open>x[is, js]\<close> with two one-dimensional index tensors: one row per index pair.\<close>

definition index2 :: "bool \<Rightarrow> tensor \<Rightarrow> int list \<times> int list \<Rightarrow> error + tensor" where
  "index2 gm x idx =
     (case shape x of
        d0 # d1 # rest \<Rightarrow>
          and_then (broadcast_idx (fst idx) (snd idx)) (\<lambda>ps.
          and_then (collect (map (flat_index2 d0 d1) ps)) (\<lambda>ks.
          Inr (Tensor (length ks # rest)
                 (concat (map (row_at (numel rest) (vals x)) ks))
                 (gm \<and> requires_grad x))))
      | _ \<Rightarrow> Inl IndexError)"

text \<open>\<^verbatim>\<open>x[js]\<close> with one one-dimensional index tensor: rows of the first dimension.\<close>

definition index1 :: "bool \<Rightarrow> tensor \<Rightarrow> int list \<Rightarrow> error + tensor" where
  "index1 gm x js =
     (case shape x of
        d0 # rest \<Rightarrow>
          and_then (collect (map (norm_index d0) js)) (\<lambda>ks.
          Inr (Tensor (length ks # rest)
                 (concat (map (row_at (numel rest) (vals x)) ks))
                 (gm \<and> requires_grad x)))
      | [] \<Rightarrow> Inl IndexError)"

text \<open>
  \<^verbatim>\<open>torch.cat(ts)\<close> along dimension 0. An empty list is refused; tensors of shape
  \<open>[0]\<close> are skipped (the legacy rule); the others must agree outside dimension 0.
\<close>

definition cat :: "bool \<Rightarrow> tensor list \<Rightarrow> error + tensor" where
  "cat gm ts =
     (if ts = [] then Inl RuntimeError
      else case filter (\<lambda>t. shape t \<noteq> [0]) ts of
        [] \<Rightarrow> Inr (Tensor [0] [] (gm \<and> (\<exists>t \<in> set ts. requires_grad t)))
      | u # us \<Rightarrow>
          if shape u = [] \<or> (\<exists>t \<in> set us. shape t = [] \<or> tl (shape t) \<noteq> tl (shape u))
          then Inl RuntimeError
          else Inr (Tensor (sum_list (map (hd \<circ> shape) (u # us)) # tl (shape u))
                      (concat (map vals (u # us)))
                      (gm \<and> (\<exists>t \<in> set ts. requires_grad t))))"

text \<open>Index tensors are one-dimensional \<^verbatim>\<open>int64\<close> tensors: integer lists.\<close>

definition cat_idx :: "int list list \<Rightarrow> error + int list" where
  "cat_idx ts = (if ts = [] then Inl RuntimeError else Inr (concat ts))"

text \<open>\<^verbatim>\<open>x.squeeze()\<close> drops every dimension of size one; the elements stay.\<close>

definition squeeze :: "tensor \<Rightarrow> tensor" where
  "squeeze x = Tensor (filter (\<lambda>d. d \<noteq> 1) (shape x)) (vals x) (requires_grad x)"

definition zeros_like :: "tensor \<Rightarrow> tensor" where
  "zeros_like x = Tensor (shape x) (replicate (numel (shape x)) 0) False"

definition full :: "nat list \<Rightarrow> real \<Rightarrow> tensor" where
  "full s v = Tensor s (replicate (numel s) v) False"

definition arange :: "nat \<Rightarrow> int list" where
  "arange n = map int [0..<n]"

text \<open>Truncation toward zero: \<^verbatim>\<open>.int()\<close> and \<^verbatim>\<open>.long()\<close> of a float tensor.\<close>

definition trunc :: "real \<Rightarrow> int" where
  "trunc v = (if 0 \<le> v then \<lfloor>v\<rfloor> else \<lceil>v\<rceil>)"

definition to_int :: "tensor \<Rightarrow> tensor" where
  "to_int x = Tensor (shape x) (map (\<lambda>v. real_of_int (trunc v)) (vals x)) False"

definition int_vals :: "tensor \<Rightarrow> int list" where
  "int_vals x = map trunc (vals x)"

subsection \<open>Elementwise operations and broadcasting\<close>

text \<open>Shapes are aligned at their last dimension; a dimension of size one stretches.\<close>

fun bshape_rev :: "nat list \<Rightarrow> nat list \<Rightarrow> nat list option" where
  "bshape_rev [] ys = Some ys"
| "bshape_rev xs [] = Some xs"
| "bshape_rev (x # xs) (y # ys) =
     (if x = y \<or> y = 1 then map_option ((#) x) (bshape_rev xs ys)
      else if x = 1 then map_option ((#) y) (bshape_rev xs ys)
      else None)"

definition broadcast_shape :: "nat list \<Rightarrow> nat list \<Rightarrow> nat list option" where
  "broadcast_shape a b = map_option rev (bshape_rev (rev a) (rev b))"

definition pad_shape :: "nat list \<Rightarrow> nat list \<Rightarrow> nat list" where
  "pad_shape r s = replicate (length r - length s) 1 @ s"

fun expand :: "nat list \<Rightarrow> nat list \<Rightarrow> real list \<Rightarrow> real list" where
  "expand (s # ss) (r # rs) xs =
     (if s = r then concat (map (\<lambda>k. expand ss rs (row_at (numel ss) xs k)) [0..<r])
      else concat (replicate r (expand ss rs xs)))"
| "expand ss rs xs = xs"

definition elementwise ::
  "bool \<Rightarrow> (real \<Rightarrow> real \<Rightarrow> real) \<Rightarrow> tensor \<Rightarrow> tensor \<Rightarrow> error + tensor" where
  "elementwise gm f a b =
     (case broadcast_shape (shape a) (shape b) of
        None \<Rightarrow> Inl RuntimeError
      | Some r \<Rightarrow>
          Inr (Tensor r
                 (map2 f (expand (pad_shape r (shape a)) r (vals a))
                         (expand (pad_shape r (shape b)) r (vals b)))
                 (gm \<and> (requires_grad a \<or> requires_grad b))))"

text \<open>An in-place operation (\<^verbatim>\<open>a /= b\<close>) cannot change the shape of \<open>a\<close>.\<close>

definition elementwise_inplace ::
  "bool \<Rightarrow> (real \<Rightarrow> real \<Rightarrow> real) \<Rightarrow> tensor \<Rightarrow> tensor \<Rightarrow> error + tensor" where
  "elementwise_inplace gm f a b =
     and_then (elementwise gm f a b) (\<lambda>r.
       if shape r = shape a then Inr r else Inl RuntimeError)"

definition map_tensor :: "bool \<Rightarrow> (real \<Rightarrow> real) \<Rightarrow> tensor \<Rightarrow> tensor" where
  "map_tensor gm f x = Tensor (shape x) (map f (vals x)) (gm \<and> requires_grad x)"

definition detach :: "tensor \<Rightarrow> tensor" where
  "detach x = Tensor (shape x) (vals x) False"

subsection \<open>Reductions and losses of \<^verbatim>\<open>torch.nn.functional\<close>\<close>

definition torch_sum :: "bool \<Rightarrow> tensor \<Rightarrow> tensor" where
  "torch_sum gm x = Tensor [] [sum_list (vals x)] (gm \<and> requires_grad x)"

definition mean :: "bool \<Rightarrow> tensor \<Rightarrow> tensor" where
  "mean gm x = Tensor [] [sum_list (vals x) / real (length (vals x))] (gm \<and> requires_grad x)"

datatype reduction = NoReduction | MeanReduction

definition l1_loss :: "bool \<Rightarrow> tensor \<Rightarrow> tensor \<Rightarrow> reduction \<Rightarrow> error + tensor" where
  "l1_loss gm a b red =
     and_then (elementwise gm (\<lambda>u v. \<bar>u - v\<bar>) a b) (\<lambda>d.
       case red of NoReduction \<Rightarrow> Inr d | MeanReduction \<Rightarrow> Inr (mean gm d))"

definition mse_loss :: "bool \<Rightarrow> tensor \<Rightarrow> tensor \<Rightarrow> error + tensor" where
  "mse_loss gm a b =
     and_then (elementwise gm (\<lambda>u v. (u - v)\<^sup>2) a b) (\<lambda>d. Inr (mean gm d))"

definition log_softmax :: "real list \<Rightarrow> real list" where
  "log_softmax xs = map (\<lambda>v. v - ln (sum_list (map exp xs))) xs"

definition softmax :: "real list \<Rightarrow> real list" where
  "softmax xs = map (\<lambda>v. exp v / sum_list (map exp xs)) xs"

text \<open>
  The score vectors of a cross-entropy input, one per target position in the target's
  row-major order: the class dimension is dimension 1.
\<close>

definition class_scores :: "tensor \<Rightarrow> error + real list list" where
  "class_scores x =
     (case shape x of
        [n, c] \<Rightarrow> Inr (rows n c (vals x))
      | [n, c, q] \<Rightarrow>
          Inr (concat (map (\<lambda>i. map (\<lambda>j. map (\<lambda>k. vals x ! (i * c * q + k * q + j)) [0..<c])
                                   [0..<q]) [0..<n]))
      | _ \<Rightarrow> Inl NotModelled)"

definition num_classes_of :: "tensor \<Rightarrow> nat" where
  "num_classes_of x = hd (tl (shape x))"

definition target_shape_of :: "tensor \<Rightarrow> nat list" where
  "target_shape_of x = hd (shape x) # tl (tl (shape x))"

text \<open>
  \<^verbatim>\<open>F.cross_entropy\<close> with class-index targets. A target equal to \<^verbatim>\<open>ignore_index\<close>
  (\<open>-100\<close>) contributes nothing; any other target outside \<open>[0, C)\<close> is refused. With
  weights, the mean divides by the sum of the weights of the targets.
\<close>

definition ignore_index :: int where
  "ignore_index = - 100"

definition ce_term :: "real list option \<Rightarrow> real list \<Rightarrow> int \<Rightarrow> error + real \<times> real" where
  "ce_term w row y =
     (if y = ignore_index then Inr (0, 0)
      else if 0 \<le> y \<and> y < int (length row)
      then (let wy = (case w of None \<Rightarrow> 1 | Some ws \<Rightarrow> ws ! nat y)
            in Inr (wy * (- (log_softmax row ! nat y)), wy))
      else Inl IndexError)"

definition cross_entropy ::
  "bool \<Rightarrow> tensor \<Rightarrow> tensor \<Rightarrow> tensor option \<Rightarrow> reduction \<Rightarrow> error + tensor" where
  "cross_entropy gm x target weight red =
     and_then (class_scores x) (\<lambda>scores.
       if shape target \<noteq> target_shape_of x then Inl ValueError
       else if (case weight of None \<Rightarrow> False
                | Some w \<Rightarrow> shape w \<noteq> [num_classes_of x]) then Inl RuntimeError
       else
         and_then (collect (map2 (ce_term (map_option vals weight)) scores (int_vals target)))
           (\<lambda>terms. case red of
               NoReduction \<Rightarrow>
                 Inr (Tensor (shape target) (map fst terms) (gm \<and> requires_grad x))
             | MeanReduction \<Rightarrow>
                 Inr (Tensor [] [sum_list (map fst terms) / sum_list (map snd terms)]
                        (gm \<and> requires_grad x))))"

text \<open>
  \<^verbatim>\<open>F.cross_entropy\<close> with a floating-point target of the input's shape: the target
  rows are class probabilities, and the mean is over the rows.
\<close>

definition ce_prob_term :: "real list \<Rightarrow> real list \<Rightarrow> real" where
  "ce_prob_term row p = - sum_list (map2 (*) p (log_softmax row))"

definition cross_entropy_prob :: "bool \<Rightarrow> tensor \<Rightarrow> tensor \<Rightarrow> error + tensor" where
  "cross_entropy_prob gm x target =
     (case shape x of
        [n, c] \<Rightarrow>
          if shape target \<noteq> [n, c] then Inl RuntimeError
          else Inr (Tensor []
                 [sum_list (map2 ce_prob_term (rows n c (vals x)) (rows n c (vals target)))
                    / real n]
                 (gm \<and> (requires_grad x \<or> requires_grad target)))
      | [c] \<Rightarrow>
          if shape target \<noteq> [c] then Inl RuntimeError
          else Inr (Tensor [] [ce_prob_term (vals x) (vals target)]
                 (gm \<and> (requires_grad x \<or> requires_grad target)))
      | _ \<Rightarrow> Inl NotModelled)"

subsection \<open>Indexed writes, views and reductions along a dimension\<close>

text \<open>
  \<^verbatim>\<open>x[is, js] = v\<close> on a matrix. The value is a scalar, a one-element tensor or one
  value per index pair; the writes happen in order, so the last one to a position stays.
\<close>

definition put_values :: "nat \<Rightarrow> tensor \<Rightarrow> error + real list" where
  "put_values m v =
     (if shape v = [] \<or> shape v = [1] then Inr (replicate m (hd (vals v)))
      else if shape v = [m] then Inr (vals v)
      else if length (shape v) = 1 then Inl RuntimeError
      else Inl NotModelled)"

definition index_put2 :: "tensor \<Rightarrow> int list \<times> int list \<Rightarrow> tensor \<Rightarrow> error + tensor" where
  "index_put2 x idx v =
     (case shape x of
        [d0, d1] \<Rightarrow>
          and_then (broadcast_idx (fst idx) (snd idx)) (\<lambda>ps.
          and_then (collect (map (flat_index2 d0 d1) ps)) (\<lambda>ks.
          and_then (put_values (length ks) v) (\<lambda>ws.
          Inr (Tensor [d0, d1] (fold (\<lambda>(k, w) xs. xs[k := w]) (zip ks ws) (vals x))
                 (requires_grad x \<or> requires_grad v)))))
      | [] \<Rightarrow> Inl IndexError
      | [d0] \<Rightarrow> Inl IndexError
      | _ \<Rightarrow> Inl NotModelled)"

text \<open>\<^verbatim>\<open>x.transpose(1, 2)\<close> of a three-dimensional tensor.\<close>

definition transpose12 :: "tensor \<Rightarrow> error + tensor" where
  "transpose12 x =
     (case shape x of
        [d0, d1, d2] \<Rightarrow>
          Inr (Tensor [d0, d2, d1]
                 (concat (map (\<lambda>i. concat (map (\<lambda>k. map (\<lambda>j. vals x ! (i * d1 * d2 + j * d2 + k))
                                                      [0..<d1]) [0..<d2])) [0..<d0]))
                 (requires_grad x))
      | [] \<Rightarrow> Inl IndexError
      | [d0] \<Rightarrow> Inl IndexError
      | [d0, d1] \<Rightarrow> Inl IndexError
      | _ \<Rightarrow> Inl NotModelled)"

text \<open>The first index of a maximal element, as \<^verbatim>\<open>argmax\<close> and \<^verbatim>\<open>max\<close> return it.\<close>

fun argmax_list :: "real list \<Rightarrow> nat" where
  "argmax_list [] = 0"
| "argmax_list (x # xs) = (if \<forall>y \<in> set xs. y \<le> x then 0 else Suc (argmax_list xs))"

definition last_dim_rows :: "tensor \<Rightarrow> real list list" where
  "last_dim_rows x = rows (numel (butlast (shape x))) (last (shape x)) (vals x)"

definition argmax_last :: "tensor \<Rightarrow> error + tensor" where
  "argmax_last x =
     (if shape x = [] then Inr (Tensor [] [0] False)
      else if last (shape x) = 0 then Inl IndexError
      else Inr (Tensor (butlast (shape x))
                  (map (\<lambda>r. real (argmax_list r)) (last_dim_rows x)) False))"

definition max_last :: "bool \<Rightarrow> tensor \<Rightarrow> error + tensor \<times> tensor" where
  "max_last gm x =
     (if shape x = [] then Inr (x, Tensor [] [0] False)
      else if last (shape x) = 0 then Inl IndexError
      else Inr (Tensor (butlast (shape x)) (map (\<lambda>r. r ! argmax_list r) (last_dim_rows x))
                  (gm \<and> requires_grad x),
                Tensor (butlast (shape x))
                  (map (\<lambda>r. real (argmax_list r)) (last_dim_rows x)) False))"

definition softmax_last :: "bool \<Rightarrow> tensor \<Rightarrow> tensor" where
  "softmax_last gm x =
     (if shape x = [] then Tensor [] [1] (gm \<and> requires_grad x)
      else Tensor (shape x) (concat (map softmax (last_dim_rows x))) (gm \<and> requires_grad x))"

text \<open>\<^verbatim>\<open>x[..., a:b]\<close> with \<open>0 \<le> a \<le> b\<close> given as naturals, clipped to the last dimension.\<close>

definition slice_last :: "nat \<Rightarrow> nat \<Rightarrow> tensor \<Rightarrow> error + tensor" where
  "slice_last a b x =
     (if shape x = [] then Inl IndexError
      else Inr (Tensor (butlast (shape x) @ [min b (last (shape x)) - a])
                  (concat (map (\<lambda>r. drop a (take b r)) (last_dim_rows x)))
                  (requires_grad x)))"

text \<open>\<^verbatim>\<open>x.sum(1)\<close> of a matrix.\<close>

definition sum_dim1 :: "bool \<Rightarrow> tensor \<Rightarrow> error + tensor" where
  "sum_dim1 gm x =
     (case shape x of
        [d0, d1] \<Rightarrow>
          Inr (Tensor [d0] (map sum_list (rows d0 d1 (vals x))) (gm \<and> requires_grad x))
      | [] \<Rightarrow> Inl IndexError
      | [d0] \<Rightarrow> Inl IndexError
      | _ \<Rightarrow> Inl NotModelled)"

text \<open>\<^verbatim>\<open>x.view(s)\<close> keeps the elements; the element count must fit.\<close>

definition view :: "tensor \<Rightarrow> nat list \<Rightarrow> error + tensor" where
  "view x s =
     (if numel s = length (vals x) then Inr (Tensor s (vals x) (requires_grad x))
      else Inl RuntimeError)"

text \<open>\<^verbatim>\<open>x.view(-1, w)\<close> and \<^verbatim>\<open>x.view(-1)\<close>.\<close>

definition view_rows :: "tensor \<Rightarrow> nat \<Rightarrow> error + tensor" where
  "view_rows x w =
     (if w \<noteq> 0 \<and> length (vals x) mod w = 0
      then Inr (Tensor [length (vals x) div w, w] (vals x) (requires_grad x))
      else Inl RuntimeError)"

definition view_flat :: "tensor \<Rightarrow> tensor" where
  "view_flat x = Tensor [length (vals x)] (vals x) (requires_grad x)"

text \<open>\<^verbatim>\<open>len(x)\<close> and iteration over a tensor go along dimension 0.\<close>

definition len :: "tensor \<Rightarrow> error + nat" where
  "len x = (case shape x of [] \<Rightarrow> Inl TypeError | d # ds \<Rightarrow> Inr d)"

text \<open>\<^verbatim>\<open>x.size()[0]\<close> and \<^verbatim>\<open>x.shape[1]\<close> index the shape tuple.\<close>

definition size0 :: "tensor \<Rightarrow> error + nat" where
  "size0 x = (case shape x of [] \<Rightarrow> Inl IndexError | d # ds \<Rightarrow> Inr d)"

definition size1 :: "tensor \<Rightarrow> error + nat" where
  "size1 x = (case shape x of d0 # d1 # ds \<Rightarrow> Inr d1 | _ \<Rightarrow> Inl IndexError)"

definition unbind0 :: "tensor \<Rightarrow> error + tensor list" where
  "unbind0 x =
     (case shape x of
        [] \<Rightarrow> Inl TypeError
      | d # ds \<Rightarrow> Inr (map (\<lambda>r. Tensor ds r (requires_grad x)) (rows d (numel ds) (vals x))))"


text \<open>\<^verbatim>\<open>x[:, None]\<close>, \<^verbatim>\<open>x[:, 0]\<close> and \<^verbatim>\<open>x.flatten(1)\<close>.\<close>

definition unsqueeze1 :: "tensor \<Rightarrow> error + tensor" where
  "unsqueeze1 x =
     (case shape x of
        [] \<Rightarrow> Inl IndexError
      | d # ds \<Rightarrow> Inr (Tensor (d # 1 # ds) (vals x) (requires_grad x)))"

definition select_dim1_first :: "tensor \<Rightarrow> error + tensor" where
  "select_dim1_first x =
     (case shape x of
        d0 # d1 # rest \<Rightarrow>
          if d1 = 0 then Inl IndexError
          else Inr (Tensor (d0 # rest)
                      (concat (map (\<lambda>i. row_at (numel rest) (vals x) (i * d1)) [0..<d0]))
                      (requires_grad x))
      | _ \<Rightarrow> Inl IndexError)"

definition flatten1 :: "tensor \<Rightarrow> error + tensor" where
  "flatten1 x =
     (case shape x of
        d0 # d1 # rest \<Rightarrow> Inr (Tensor [d0, numel (d1 # rest)] (vals x) (requires_grad x))
      | _ \<Rightarrow> Inl IndexError)"

text \<open>\<^verbatim>\<open>torch.diag\<close>: the diagonal of a matrix, or the diagonal matrix of a vector.\<close>

definition diag :: "tensor \<Rightarrow> error + tensor" where
  "diag x =
     (case shape x of
        [n, m] \<Rightarrow>
          Inr (Tensor [min n m] (map (\<lambda>i. vals x ! (i * m + i)) [0..<min n m]) (requires_grad x))
      | [n] \<Rightarrow>
          Inr (Tensor [n, n]
                 (concat (map (\<lambda>i. (replicate n 0)[i := vals x ! i]) [0..<n]))
                 (requires_grad x))
      | _ \<Rightarrow> Inl RuntimeError)"

text \<open>
  \<^verbatim>\<open>torch.zeros(n, c).scatter_(dim=1, index=cls.view(-1, 1), value=1)\<close>: a one in
  column \<open>cls[i]\<close> of row \<open>i\<close>. \<^verbatim>\<open>scatter_\<close> takes no negative index.
\<close>

definition one_hot_row :: "nat \<Rightarrow> int \<Rightarrow> error + real list" where
  "one_hot_row c y =
     (if 0 \<le> y \<and> y < int c then Inr ((replicate c 0)[nat y := 1]) else Inl RuntimeError)"

definition scatter_one_hot :: "nat \<Rightarrow> int list \<Rightarrow> error + tensor" where
  "scatter_one_hot c ys =
     and_then (collect (map (one_hot_row c) ys)) (\<lambda>rs.
       Inr (Tensor [length ys, c] (concat rs) False))"



section \<open>The criterion\<close>

text \<open>
  The model's output is a \<^verbatim>\<open>dict\<close> of tensors, with the list of the auxiliary
  layers' dicts under \<^verbatim>\<open>'aux_outputs'\<close> when auxiliary losses are on. A target is a
  \<^verbatim>\<open>dict\<close> of tensors. A matching is one pair of index tensors per image.
\<close>

datatype pyval = Tens tensor | Bundles "(string \<times> pyval) list list"

type_synonym indices = "(int list \<times> int list) list"

definition as_tensor :: "pyval \<Rightarrow> error + tensor" where
  "as_tensor v = (case v of Tens t \<Rightarrow> Inr t | Bundles bs \<Rightarrow> Inl TypeError)"

definition tensor_at :: "pyval dict \<Rightarrow> string \<Rightarrow> error + tensor" where
  "tensor_at outputs k = and_then (getitem outputs k) as_tensor"

text \<open>
  Code of the repository that is not in \<^verbatim>\<open>models/detr.py\<close> (\<^verbatim>\<open>util.misc\<close>,
  \<^verbatim>\<open>util.box_ops\<close>, \<^verbatim>\<open>models.segmentation\<close>) and the state of the process (the
  distributed context, whether CUDA is there) are parameters of the embedding.
  \<^verbatim>\<open>torch.distributed.all_reduce\<close> adds the values of the other workers, given here as
  \<open>peer_num_boxes\<close>.
\<close>

record env =
  is_dist_avail_and_initialized :: bool
  get_world_size :: nat
  peer_num_boxes :: "real list"
  cuda_available :: bool
  accuracy :: "tensor \<Rightarrow> tensor \<Rightarrow> error + tensor list"
  box_cxcywh_to_xyxy :: "tensor \<Rightarrow> error + tensor"
  generalized_box_iou :: "tensor \<Rightarrow> tensor \<Rightarrow> error + tensor"
  nested_tensor_from_tensor_list :: "tensor list \<Rightarrow> error + tensor \<times> tensor"
  interpolate :: "tensor \<Rightarrow> nat list \<Rightarrow> error + tensor"
  sigmoid_focal_loss :: "tensor \<Rightarrow> tensor \<Rightarrow> real \<Rightarrow> error + tensor"
  dice_loss :: "tensor \<Rightarrow> tensor \<Rightarrow> real \<Rightarrow> error + tensor"

record criterion =
  num_classes :: nat
  matcher :: "pyval dict \<Rightarrow> tensor dict list \<Rightarrow> error + indices"
  weight_dict :: "real dict"
  eos_coef :: real
  losses :: "string list"
  empty_weight :: tensor
  n_depth_bins :: "nat option"
  depth_bin_res :: "real option"

text \<open>\<^verbatim>\<open>SetCriterion.__init__\<close>: the class weights are ones, with \<^verbatim>\<open>eos_coef\<close> last.\<close>

definition SetCriterion ::
  "nat \<Rightarrow> (pyval dict \<Rightarrow> tensor dict list \<Rightarrow> error + indices) \<Rightarrow> real dict \<Rightarrow> real
     \<Rightarrow> string list \<Rightarrow> nat option \<Rightarrow> real option \<Rightarrow> criterion" where
  "SetCriterion nc m wd ec ls nb res =
     \<lparr> num_classes = nc, matcher = m, weight_dict = wd, eos_coef = ec, losses = ls,
       empty_weight = Tensor [nc + 1] ((replicate (nc + 1) 1)[nc := ec]) False,
       n_depth_bins = nb, depth_bin_res = res \<rparr>"

definition get_src_permutation_idx :: "indices \<Rightarrow> error + int list \<times> int list" where
  "get_src_permutation_idx ind =
     and_then (cat_idx (map (\<lambda>(i, (src, tgt)). replicate (length src) (int i))
                          (enumerate 0 ind))) (\<lambda>batch_idx.
     and_then (cat_idx (map fst ind)) (\<lambda>src_idx.
     Inr (batch_idx, src_idx)))"

definition get_tgt_permutation_idx :: "indices \<Rightarrow> error + int list \<times> int list" where
  "get_tgt_permutation_idx ind =
     and_then (cat_idx (map (\<lambda>(i, (src, tgt)). replicate (length tgt) (int i))
                          (enumerate 0 ind))) (\<lambda>batch_idx.
     and_then (cat_idx (map snd ind)) (\<lambda>tgt_idx.
     Inr (batch_idx, tgt_idx)))"

text \<open>
  The comprehension \<^verbatim>\<open>[t[key][J] for t, (_, J) in zip(targets, indices)]\<close> that every
  matched loss builds before \<^verbatim>\<open>torch.cat\<close>.
\<close>

definition matched_targets ::
  "bool \<Rightarrow> string \<Rightarrow> tensor dict list \<Rightarrow> indices \<Rightarrow> error + tensor list" where
  "matched_targets gm key targets ind =
     collect (map (\<lambda>(t, (src, J)). and_then (getitem t key) (\<lambda>v. index1 gm v J))
                (zip targets ind))"

definition div_scalar :: "bool \<Rightarrow> tensor \<Rightarrow> real \<Rightarrow> tensor" where
  "div_scalar gm x r = map_tensor gm (\<lambda>v. v / r) x"


subsection \<open>The per-task losses\<close>

text \<open>
  Each loss takes the criterion \<open>self\<close>, the grad mode \<open>gm\<close> of the caller and the four
  arguments of the Python method, and returns the \<^verbatim>\<open>dict\<close> of its named scalars.
  A value under a \<^verbatim>\<open>pred_\<close> key that is no tensor is reported at the lookup.
\<close>

definition loss_labels ::
  "env \<Rightarrow> criterion \<Rightarrow> bool \<Rightarrow> pyval dict \<Rightarrow> tensor dict list \<Rightarrow> indices \<Rightarrow> real \<Rightarrow> bool
     \<Rightarrow> error + tensor dict" where
  "loss_labels e self gm outputs targets ind num_boxes do_log =
     and_then (py_assert (has_key ''pred_logits'' outputs)) (\<lambda>u.
     and_then (tensor_at outputs ''pred_logits'') (\<lambda>src_logits.
     and_then (get_src_permutation_idx ind) (\<lambda>idx.
     and_then (and_then (matched_targets gm ''labels'' targets ind) (cat gm))
       (\<lambda>target_classes_o.
     and_then (index_put2 (full (take 2 (shape src_logits)) (real (num_classes self)))
                 idx target_classes_o) (\<lambda>target_classes.
     and_then (and_then (transpose12 src_logits) (\<lambda>x.
                 cross_entropy gm x target_classes (Some (empty_weight self)) MeanReduction))
       (\<lambda>loss_ce.
     if do_log then
       and_then (index2 gm src_logits idx) (\<lambda>matched.
       and_then (accuracy e matched target_classes_o) (\<lambda>acc.
         case acc of
           [] \<Rightarrow> Inl IndexError
         | a # as \<Rightarrow>
             Inr [(''loss_ce'', loss_ce), (''class_error'', map_tensor gm (\<lambda>v. 100 - v) a)]))
     else Inr [(''loss_ce'', loss_ce)]))))))"

definition depth_res :: "criterion \<Rightarrow> error + real" where
  "depth_res self = (case depth_bin_res self of None \<Rightarrow> Inl TypeError | Some r \<Rightarrow> Inr r)"

definition loss_depth_multi_bin ::
  "criterion \<Rightarrow> bool \<Rightarrow> pyval dict \<Rightarrow> tensor dict list \<Rightarrow> indices \<Rightarrow> real
     \<Rightarrow> error + tensor dict" where
  "loss_depth_multi_bin self gm outputs targets ind num_boxes =
     and_then (py_assert (has_key ''pred_depth_bin'' outputs)) (\<lambda>u.
     and_then (py_assert (has_key ''pred_depth_delta'' outputs)) (\<lambda>u.
     and_then (get_src_permutation_idx ind) (\<lambda>idx.
     and_then (and_then (tensor_at outputs ''pred_depth_bin'') (\<lambda>x. index2 gm x idx))
       (\<lambda>gathered_bin.
     and_then (and_then (tensor_at outputs ''pred_depth_delta'') (\<lambda>x. index2 gm x idx))
       (\<lambda>gathered_delta.
     and_then (and_then (matched_targets gm ''depth'' targets ind) (cat gm)) (\<lambda>target_depth.
     and_then (depth_res self) (\<lambda>res.
     let src_depth_bin = squeeze gathered_bin;
         src_depth_delta = squeeze gathered_delta;
         target_depth_bin_cls = to_int (map_tensor gm (\<lambda>v. v / res) target_depth)
     in
     and_then (elementwise gm (-) target_depth
                 (map_tensor gm (\<lambda>v. v * res) target_depth_bin_cls)) (\<lambda>d.
     let target_depth_delta = map_tensor gm (\<lambda>v. v - res / 2) d in
     and_then (size0 src_depth_bin) (\<lambda>n0.
     and_then (index_put2 (zeros_like src_depth_bin)
                 (arange n0, int_vals target_depth_bin_cls) (scalar False 1))
       (\<lambda>target_depth_bin.
     and_then (mse_loss gm src_depth_delta target_depth_delta) (\<lambda>loss_depth_reg.
     and_then (cross_entropy_prob gm src_depth_bin target_depth_bin) (\<lambda>loss_depth_class.
     and_then (elementwise gm (+) (map_tensor gm (\<lambda>v. v / 2) loss_depth_reg)
                 (map_tensor gm (\<lambda>v. v / 2) loss_depth_class)) (\<lambda>loss.
     Inr [(''loss_depth'', loss)])))))))))))))"

text \<open>\<^verbatim>\<open>loss_cardinality\<close> is decorated with \<^verbatim>\<open>@torch.no_grad()\<close>: the grad mode is off.\<close>

definition loss_cardinality ::
  "criterion \<Rightarrow> bool \<Rightarrow> pyval dict \<Rightarrow> tensor dict list \<Rightarrow> indices \<Rightarrow> real
     \<Rightarrow> error + tensor dict" where
  "loss_cardinality self gm outputs targets ind num_boxes =
     and_then (tensor_at outputs ''pred_logits'') (\<lambda>pred_logits.
     and_then (collect (map (\<lambda>v. and_then (getitem v ''labels'') len) targets)) (\<lambda>ls.
     let tgt_lengths = Tensor [length ls] (map real ls) False in
     and_then (argmax_last pred_logits) (\<lambda>am.
     if shape pred_logits = [] then Inl IndexError
     else
       let no_object = real_of_int (int (last (shape pred_logits)) - 1);
           not_empty = map_tensor False (\<lambda>v. if v \<noteq> no_object then 1 else 0) am
       in
       and_then (sum_dim1 False not_empty) (\<lambda>card_pred.
       and_then (l1_loss False card_pred tgt_lengths MeanReduction) (\<lambda>card_err.
       Inr [(''cardinality_error'', card_err)])))))"

definition loss_boxes ::
  "env \<Rightarrow> criterion \<Rightarrow> bool \<Rightarrow> pyval dict \<Rightarrow> tensor dict list \<Rightarrow> indices \<Rightarrow> real
     \<Rightarrow> error + tensor dict" where
  "loss_boxes e self gm outputs targets ind num_boxes =
     and_then (py_assert (has_key ''pred_boxes'' outputs)) (\<lambda>u.
     and_then (get_src_permutation_idx ind) (\<lambda>idx.
     and_then (and_then (tensor_at outputs ''pred_boxes'') (\<lambda>x. index2 gm x idx))
       (\<lambda>src_boxes.
     and_then (and_then (matched_targets gm ''boxes'' targets ind) (cat gm)) (\<lambda>target_boxes.
     and_then (l1_loss gm src_boxes target_boxes NoReduction) (\<lambda>loss_bbox.
     and_then (box_cxcywh_to_xyxy e src_boxes) (\<lambda>src_xyxy.
     and_then (box_cxcywh_to_xyxy e target_boxes) (\<lambda>target_xyxy.
     and_then (and_then (generalized_box_iou e src_xyxy target_xyxy) diag) (\<lambda>giou.
     let loss_giou = map_tensor gm (\<lambda>v. 1 - v) giou in
     Inr [(''loss_bbox'', div_scalar gm (torch_sum gm loss_bbox) num_boxes),
          (''loss_giou'', div_scalar gm (torch_sum gm loss_giou) num_boxes)]))))))))"

definition loss_masks ::
  "env \<Rightarrow> criterion \<Rightarrow> bool \<Rightarrow> pyval dict \<Rightarrow> tensor dict list \<Rightarrow> indices \<Rightarrow> real
     \<Rightarrow> error + tensor dict" where
  "loss_masks e self gm outputs targets ind num_boxes =
     and_then (py_assert (has_key ''pred_masks'' outputs)) (\<lambda>u.
     and_then (get_src_permutation_idx ind) (\<lambda>src_idx.
     and_then (get_tgt_permutation_idx ind) (\<lambda>tgt_idx.
     and_then (and_then (tensor_at outputs ''pred_masks'') (\<lambda>x. index2 gm x src_idx))
       (\<lambda>src_masks.
     and_then (collect (map (\<lambda>t. getitem t ''masks'') targets)) (\<lambda>masks.
     and_then (nested_tensor_from_tensor_list e masks) (\<lambda>(padded, valid).
     and_then (index2 gm padded tgt_idx) (\<lambda>target_masks.
     and_then (and_then (unsqueeze1 src_masks) (\<lambda>x.
                 interpolate e x (drop (length (shape target_masks) - 2) (shape target_masks))))
       (\<lambda>upsampled.
     and_then (and_then (select_dim1_first upsampled) flatten1) (\<lambda>src_flat.
     and_then (and_then (flatten1 target_masks) (\<lambda>x. view x (shape src_flat))) (\<lambda>target_flat.
     and_then (sigmoid_focal_loss e src_flat target_flat num_boxes) (\<lambda>loss_mask.
     and_then (dice_loss e src_flat target_flat num_boxes) (\<lambda>loss_dice.
     Inr [(''loss_mask'', loss_mask), (''loss_dice'', loss_dice)]))))))))))))"

text \<open>
  \<^verbatim>\<open>loss_bev\<close>, \<^verbatim>\<open>loss_head\<close> and \<^verbatim>\<open>loss_feet\<close> have the same body up to the key of
  the prediction and the name of the result; all three read the targets' \<^verbatim>\<open>'bev'\<close>.
\<close>

definition loss_bev ::
  "criterion \<Rightarrow> bool \<Rightarrow> pyval dict \<Rightarrow> tensor dict list \<Rightarrow> indices \<Rightarrow> real
     \<Rightarrow> error + tensor dict" where
  "loss_bev self gm outputs targets ind num_boxes =
     and_then (py_assert (has_key ''pred_bev'' outputs)) (\<lambda>u.
     and_then (get_src_permutation_idx ind) (\<lambda>idx.
     and_then (and_then (tensor_at outputs ''pred_bev'') (\<lambda>x. index2 gm x idx)) (\<lambda>gathered.
     let src_bev = squeeze gathered in
     and_then (and_then (matched_targets gm ''bev'' targets ind) (cat gm)) (\<lambda>target_bev.
     and_then (l1_loss gm src_bev target_bev NoReduction) (\<lambda>loss.
     Inr [(''loss_bev'', div_scalar gm (torch_sum gm loss) num_boxes)])))))"

definition loss_head ::
  "criterion \<Rightarrow> bool \<Rightarrow> pyval dict \<Rightarrow> tensor dict list \<Rightarrow> indices \<Rightarrow> real
     \<Rightarrow> error + tensor dict" where
  "loss_head self gm outputs targets ind num_boxes =
     and_then (py_assert (has_key ''pred_head_bev'' outputs)) (\<lambda>u.
     and_then (get_src_permutation_idx ind) (\<lambda>idx.
     and_then (and_then (tensor_at outputs ''pred_head_bev'') (\<lambda>x. index2 gm x idx))
       (\<lambda>gathered.
     let src_bev = squeeze gathered in
     and_then (and_then (matched_targets gm ''bev'' targets ind) (cat gm)) (\<lambda>target_bev.
     and_then (l1_loss gm src_bev target_bev NoReduction) (\<lambda>loss.
     Inr [(''loss_head_bev'', div_scalar gm (torch_sum gm loss) num_boxes)])))))"

definition loss_feet ::
  "criterion \<Rightarrow> bool \<Rightarrow> pyval dict \<Rightarrow> tensor dict list \<Rightarrow> indices \<Rightarrow> real
     \<Rightarrow> error + tensor dict" where
  "loss_feet self gm outputs targets ind num_boxes =
     and_then (py_assert (has_key ''pred_feet_bev'' outputs)) (\<lambda>u.
     and_then (get_src_permutation_idx ind) (\<lambda>idx.
     and_then (and_then (tensor_at outputs ''pred_feet_bev'') (\<lambda>x. index2 gm x idx))
       (\<lambda>gathered.
     let src_bev = squeeze gathered in
     and_then (and_then (matched_targets gm ''bev'' targets ind) (cat gm)) (\<lambda>target_bev.
     and_then (l1_loss gm src_bev target_bev NoReduction) (\<lambda>loss.
     Inr [(''loss_feet_bev'', div_scalar gm (torch_sum gm loss) num_boxes)])))))"

text \<open>
  In \<^verbatim>\<open>loss_dims\<close> the compensation weight is computed inside \<^verbatim>\<open>with torch.no_grad()\<close>,
  so with the grad mode off; \<open>compensation_weight\<close> is that part of the method.
\<close>

definition compensation_weight :: "tensor \<Rightarrow> tensor \<Rightarrow> tensor \<Rightarrow> error + tensor" where
  "compensation_weight src_dims target_dims dim_loss =
     and_then (l1_loss False src_dims target_dims MeanReduction) (\<lambda>l.
       elementwise False (/) l (mean False dim_loss))"

definition loss_dims ::
  "criterion \<Rightarrow> bool \<Rightarrow> pyval dict \<Rightarrow> tensor dict list \<Rightarrow> indices \<Rightarrow> real
     \<Rightarrow> error + tensor dict" where
  "loss_dims self gm outputs targets ind num_boxes =
     and_then (py_assert (has_key ''pred_dim'' outputs)) (\<lambda>u.
     and_then (get_src_permutation_idx ind) (\<lambda>idx.
     and_then (and_then (tensor_at outputs ''pred_dim'') (\<lambda>x. index2 gm x idx)) (\<lambda>src_dims.
     and_then (and_then (matched_targets gm ''dim'' targets ind) (cat gm)) (\<lambda>target_dims.
     let dimension = detach target_dims in
     and_then (elementwise gm (-) src_dims target_dims) (\<lambda>d.
     and_then (elementwise_inplace gm (/) (map_tensor gm abs d) dimension) (\<lambda>dim_loss.
     and_then (compensation_weight src_dims target_dims dim_loss) (\<lambda>cw.
     and_then (elementwise_inplace gm (*) dim_loss cw) (\<lambda>dim_loss.
     Inr [(''loss_dim'', div_scalar gm (torch_sum gm dim_loss) num_boxes)]))))))))"

text \<open>
  \<^verbatim>\<open>loss_angles\<close> builds its one-hot mask with \<^verbatim>\<open>.cuda()\<close>, which fails where CUDA is
  missing; the placement of tensors on devices is not followed further.
\<close>

definition loss_angles ::
  "env \<Rightarrow> criterion \<Rightarrow> bool \<Rightarrow> pyval dict \<Rightarrow> tensor dict list \<Rightarrow> indices \<Rightarrow> real
     \<Rightarrow> error + tensor dict" where
  "loss_angles e self gm outputs targets ind num_boxes =
     and_then (get_src_permutation_idx ind) (\<lambda>idx.
     and_then (and_then (tensor_at outputs ''pred_angle'') (\<lambda>x. index2 gm x idx))
       (\<lambda>gathered.
     and_then (and_then (matched_targets gm ''heading_bin'' targets ind) (cat gm))
       (\<lambda>target_heading_cls.
     and_then (and_then (matched_targets gm ''heading_res'' targets ind) (cat gm))
       (\<lambda>target_heading_res.
     and_then (view_rows gathered 24) (\<lambda>heading_input.
     let heading_target_cls = to_int (view_flat target_heading_cls);
         heading_target_res = view_flat target_heading_res
     in
     and_then (and_then (slice_last 0 12 heading_input) (\<lambda>x.
                 cross_entropy gm x heading_target_cls None NoReduction)) (\<lambda>cls_loss.
     and_then (slice_last 12 24 heading_input) (\<lambda>heading_input_res.
     and_then (if cuda_available e then scatter_one_hot 12 (int_vals heading_target_cls)
               else Inl RuntimeError) (\<lambda>cls_onehot.
     and_then (and_then (elementwise gm (*) heading_input_res cls_onehot) (sum_dim1 gm))
       (\<lambda>selected_res.
     and_then (l1_loss gm selected_res heading_target_res NoReduction) (\<lambda>reg_loss.
     and_then (elementwise gm (+) cls_loss reg_loss) (\<lambda>angle_loss.
     Inr [(''loss_angle'', div_scalar gm (torch_sum gm angle_loss) num_boxes)])))))))))))"


subsection \<open>Dispatch and the forward pass\<close>

text \<open>
  \<^verbatim>\<open>get_loss\<close> looks the name up in \<^verbatim>\<open>loss_map\<close> and passes the keyword arguments on.
  The only keyword the caller ever passes is \<^verbatim>\<open>log\<close>: \<open>None\<close> stands for no keyword,
  \<open>Some b\<close> for \<^verbatim>\<open>log=b\<close>. Only \<^verbatim>\<open>loss_labels\<close> accepts it.
\<close>

definition loss_map_keys :: "string list" where
  "loss_map_keys = [''labels'', ''cardinality'', ''boxes'', ''masks'', ''bev'', ''dim'',
                    ''angle'', ''depth'', ''head'', ''feet'']"

definition no_kwargs :: "bool option \<Rightarrow> error + tensor dict \<Rightarrow> error + tensor dict" where
  "no_kwargs kw r = (case kw of None \<Rightarrow> r | Some b \<Rightarrow> Inl TypeError)"

definition get_loss ::
  "env \<Rightarrow> criterion \<Rightarrow> bool \<Rightarrow> string \<Rightarrow> pyval dict \<Rightarrow> tensor dict list \<Rightarrow> indices \<Rightarrow> real
     \<Rightarrow> bool option \<Rightarrow> error + tensor dict" where
  "get_loss e self gm loss outputs targets ind num_boxes kw =
     and_then (py_assert (loss \<in> set loss_map_keys)) (\<lambda>u.
       if loss = ''labels'' then
         loss_labels e self gm outputs targets ind num_boxes
           (case kw of None \<Rightarrow> True | Some b \<Rightarrow> b)
       else if loss = ''cardinality'' then
         no_kwargs kw (loss_cardinality self gm outputs targets ind num_boxes)
       else if loss = ''boxes'' then
         no_kwargs kw (loss_boxes e self gm outputs targets ind num_boxes)
       else if loss = ''masks'' then
         no_kwargs kw (loss_masks e self gm outputs targets ind num_boxes)
       else if loss = ''bev'' then
         no_kwargs kw (loss_bev self gm outputs targets ind num_boxes)
       else if loss = ''dim'' then
         no_kwargs kw (loss_dims self gm outputs targets ind num_boxes)
       else if loss = ''angle'' then
         no_kwargs kw (loss_angles e self gm outputs targets ind num_boxes)
       else if loss = ''depth'' then
         no_kwargs kw (loss_depth_multi_bin self gm outputs targets ind num_boxes)
       else if loss = ''head'' then
         no_kwargs kw (loss_head self gm outputs targets ind num_boxes)
       else
         no_kwargs kw (loss_feet self gm outputs targets ind num_boxes))"












section \<open>Post-processing\<close>

text \<open>
  \<^verbatim>\<open>PostProcess.forward\<close> runs under \<^verbatim>\<open>@torch.no_grad()\<close>. A size tensor of more than
  two dimensions is not followed.
\<close>

definition scale_fct :: "tensor \<Rightarrow> error + tensor" where
  "scale_fct target_sizes =
     (case shape target_sizes of
        [b, two] \<Rightarrow>
          Inr (Tensor [b, 1, 4]
                 (concat (map (\<lambda>r. [r ! 1, r ! 0, r ! 1, r ! 0]) (rows b 2 (vals target_sizes))))
                 False)
      | _ \<Rightarrow> Inl NotModelled)"

definition PostProcess_forward ::
  "env \<Rightarrow> pyval dict \<Rightarrow> tensor \<Rightarrow> error + tensor dict list" where
  "PostProcess_forward e outputs target_sizes =
     and_then (tensor_at outputs ''pred_logits'') (\<lambda>out_logits.
     and_then (tensor_at outputs ''pred_boxes'') (\<lambda>out_bbox.
     and_then (len out_logits) (\<lambda>n_logits.
     and_then (len target_sizes) (\<lambda>n_sizes.
     and_then (py_assert (n_logits = n_sizes)) (\<lambda>u.
     and_then (size1 target_sizes) (\<lambda>s1.
     and_then (py_assert (s1 = 2)) (\<lambda>u.
     let prob = softmax_last False out_logits in
     and_then (and_then (slice_last 0 (last (shape prob) - 1) prob) (max_last False))
       (\<lambda>(scores, labels).
     and_then (box_cxcywh_to_xyxy e out_bbox) (\<lambda>boxes.
     and_then (scale_fct target_sizes) (\<lambda>sc.
     and_then (elementwise False (*) boxes sc) (\<lambda>boxes.
     and_then (unbind0 scores) (\<lambda>ss.
     and_then (unbind0 labels) (\<lambda>ls.
     and_then (unbind0 boxes) (\<lambda>bs.
     Inr (map (\<lambda>(s, l, b). [(''scores'', s), (''labels'', l), (''boxes'', b)])
            (zip ss (zip ls bs)))))))))))))))))"


section \<open>Notions of the specification\<close>

text \<open>
  The total number of target objects of the local batch, and the normalisation
  denominator the specification describes: that total, summed with the other workers'
  totals when the distributed context is up, over the world size, at least one.
\<close>

definition has_labels :: "tensor dict \<Rightarrow> bool" where
  "has_labels t = (case map_of t ''labels'' of Some x \<Rightarrow> shape x \<noteq> [] | None \<Rightarrow> False)"



text \<open>
  A call fails when it ends in a Python exception. The keys each loss requires, as the
  specification lists them.
\<close>

definition raises :: "error + 'a \<Rightarrow> bool" where
  "raises r = (case r of Inl err \<Rightarrow> err \<noteq> NotModelled | Inr v \<Rightarrow> False)"

definition required_output_keys :: "string \<Rightarrow> string list" where
  "required_output_keys loss =
     (if loss = ''labels'' \<or> loss = ''cardinality'' then [''pred_logits'']
      else if loss = ''boxes'' then [''pred_boxes'']
      else if loss = ''masks'' then [''pred_masks'']
      else if loss = ''bev'' then [''pred_bev'']
      else if loss = ''dim'' then [''pred_dim'']
      else if loss = ''angle'' then [''pred_angle'']
      else if loss = ''depth'' then [''pred_depth_bin'', ''pred_depth_delta'']
      else if loss = ''head'' then [''pred_head_bev'']
      else if loss = ''feet'' then [''pred_feet_bev'']
      else [])"

definition required_target_keys :: "string \<Rightarrow> string list" where
  "required_target_keys loss =
     (if loss = ''labels'' \<or> loss = ''cardinality'' then [''labels'']
      else if loss = ''boxes'' then [''boxes'']
      else if loss = ''masks'' then [''masks'']
      else if loss = ''bev'' \<or> loss = ''head'' \<or> loss = ''feet'' then [''bev'']
      else if loss = ''dim'' then [''dim'']
      else if loss = ''angle'' then [''heading_bin'', ''heading_res'']
      else if loss = ''depth'' then [''depth'']
      else [])"

definition modelled :: "error + 'a \<Rightarrow> bool" where
  "modelled r = (r \<noteq> Inl NotModelled)"







text \<open>
  The matched predictions under a key and the matched target field, as every matched loss
  gathers them; the summed absolute difference; and a set of \<open>m\<close> matched two-dimensional
  points with their targets.
\<close>

definition matched_points :: "bool \<Rightarrow> string \<Rightarrow> pyval dict \<Rightarrow> indices \<Rightarrow> error + tensor" where
  "matched_points gm key outputs ind =
     and_then (get_src_permutation_idx ind) (\<lambda>idx.
     and_then (tensor_at outputs key) (\<lambda>x. index2 gm x idx))"

definition matched_field ::
  "bool \<Rightarrow> string \<Rightarrow> tensor dict list \<Rightarrow> indices \<Rightarrow> error + tensor" where
  "matched_field gm key targets ind = and_then (matched_targets gm key targets ind) (cat gm)"

definition l1_sum :: "real list \<Rightarrow> real list \<Rightarrow> real" where
  "l1_sum xs ys = sum_list (map2 (\<lambda>u v. \<bar>u - v\<bar>) xs ys)"

definition point_pair :: "nat \<Rightarrow> tensor \<Rightarrow> tensor \<Rightarrow> bool" where
  "point_pair m p t = (shape p = [m, 2] \<and> shape t = [m, 2] \<and> wf_tensor p \<and> wf_tensor t)"

text \<open>
  For logits of shape \<open>[B, Q, C]\<close>: the scores of query \<open>q\<close> of image \<open>b\<close>, the number of
  queries of an image whose first maximal score is not at the last class, the number of
  objects of a target, and the mean absolute difference of the two counts over the images.
\<close>

definition query_scores :: "tensor \<Rightarrow> nat \<Rightarrow> nat \<Rightarrow> real list" where
  "query_scores x b q = row_at (shape x ! 2) (vals x) (b * (shape x ! 1) + q)"

definition predicted_count :: "tensor \<Rightarrow> nat \<Rightarrow> nat" where
  "predicted_count x b =
     length (filter (\<lambda>q. argmax_list (query_scores x b q) \<noteq> shape x ! 2 - 1)
               [0..<shape x ! 1])"

definition target_count :: "tensor dict \<Rightarrow> nat" where
  "target_count t = (case map_of t ''labels'' of Some l \<Rightarrow> hd (shape l) | None \<Rightarrow> 0)"

definition cardinality_spec :: "tensor \<Rightarrow> tensor dict list \<Rightarrow> real" where
  "cardinality_spec x targets =
     sum_list (map (\<lambda>b. \<bar>real (predicted_count x b) - real (target_count (targets ! b))\<bar>)
                 [0..<length targets])
     / real (length targets)"








section \<open>Example data\<close>

text \<open>
  A worker of a two-worker run: two images with two and one target, two queries and two
  object classes; the other worker reports two targets.
\<close>

definition ex_env :: env where
  "ex_env =
     \<lparr> is_dist_avail_and_initialized = True, get_world_size = 2, peer_num_boxes = [2],
       cuda_available = False,
       accuracy = (\<lambda>x y. Inr [Tensor [] [50] False]),
       box_cxcywh_to_xyxy = (\<lambda>x. Inr x),
       generalized_box_iou = (\<lambda>x y. Inl NotModelled),
       nested_tensor_from_tensor_list =
         (\<lambda>ts. Inr (Tensor [2, 2, 1, 1] [1, 0, 1, 0] False, Tensor [2, 1, 1] [0, 0] False)),
       interpolate = (\<lambda>x s. Inr x),
       sigmoid_focal_loss = (\<lambda>x y n. Inr (Tensor [] [1 / 4] True)),
       dice_loss = (\<lambda>x y n. Inr (Tensor [] [3 / 4] True)) \<rparr>"

definition ex_targets :: "tensor dict list" where
  "ex_targets =
     [[(''labels'', Tensor [2] [1, 0] False), (''bev'', Tensor [2, 2] [1, 2, 3, 4] False),
       (''masks'', Tensor [2, 1, 1] [1, 0] False)],
      [(''labels'', Tensor [1] [1] False), (''bev'', Tensor [1, 2] [5, 6] False),
       (''masks'', Tensor [1, 1, 1] [1] False)]]"

definition ex_bundle :: "pyval dict" where
  "ex_bundle =
     [(''pred_logits'', Tens (Tensor [2, 2, 3] [0, 1, 0, 0, 0, 1, 1, 0, 0, 0, 0, 1] True)),
      (''pred_bev'', Tens (Tensor [2, 2, 2] [1, 1, 2, 2, 3, 3, 4, 4] True))]"


definition ex_indices :: indices where
  "ex_indices = [([1, 0], [0, 1]), ([0], [0])]"

definition ex_criterion :: criterion where
  "ex_criterion =
     SetCriterion 2 (\<lambda>outputs targets. Inr ex_indices) [] (1 / 10)
       [''labels'', ''cardinality'', ''masks'', ''bev''] (Some 10) (Some 1)"

text \<open>A bundle with the three predicted points, and what the example matching selects.\<close>

definition ex_point_bundle :: "pyval dict" where
  "ex_point_bundle =
     ex_bundle @ [(''pred_head_bev'', Tens (Tensor [2, 2, 2] [1, 1, 2, 2, 3, 3, 4, 4] True)),
                  (''pred_feet_bev'', Tens (Tensor [2, 2, 2] [1, 1, 2, 2, 3, 3, 4, 4] False))]"

definition ex_points :: "bool \<Rightarrow> tensor" where
  "ex_points rg = Tensor [3, 2] [2, 2, 1, 1, 3, 3] rg"

definition ex_bev :: tensor where
  "ex_bev = Tensor [3, 2] [1, 2, 3, 4, 5, 6] False"

text \<open>The logits of the example bundle.\<close>

definition ex_logits :: tensor where
  "ex_logits = Tensor [2, 2, 3] [0, 1, 0, 0, 0, 1, 1, 0, 0, 0, 0, 1] True"

text \<open>
  Depth predictions over four bins for one image with two queries, matched to two targets
  of which the first has a negative depth, and to a single target.
\<close>

definition ex_depth_bundle :: "pyval dict" where
  "ex_depth_bundle =
     [(''pred_depth_bin'',
         Tens (Tensor [1, 2, 4] [1 / 4, 1 / 4, 1 / 4, 1 / 4, 1 / 2, 1 / 2, 0, 0] True)),
      (''pred_depth_delta'', Tens (Tensor [1, 2, 1] [0, 1 / 4] True))]"



definition ex_single_targets :: "tensor dict list" where
  "ex_single_targets =
     [[(''labels'', Tensor [1] [0] False), (''depth'', Tensor [1] [1 / 2] False)]]"

definition ex_single_indices :: indices where
  "ex_single_indices = [([0], [0])]"

section \<open>Basic facts\<close>

text \<open>
  Evaluations of the example leave \<open>exp\<close> and \<open>ln\<close> alone: the two functions that use
  them are not unfolded there.
\<close>

declare log_softmax_def [code del]

declare softmax_def [code del]

lemma and_then_Inr [simp]: "and_then (Inr x) f = f x"
  by (simp add: and_then_def)

lemma and_then_Inl [simp]: "and_then (Inl err) f = Inl err"
  by (simp add: and_then_def)

lemma and_then_eq_Inr: "(and_then m f = Inr y) = (\<exists>x. m = Inr x \<and> f x = Inr y)"
  by (cases m) simp_all

lemma and_then_eq_Inl:
  "(and_then m f = Inl err) = (m = Inl err \<or> (\<exists>x. m = Inr x \<and> f x = Inl err))"
  by (cases m) auto

lemma collect_map_Inr: "collect (map (\<lambda>x. Inr (f x)) xs) = Inr (map f xs)"
  by (induction xs) simp_all

lemma collect_Inl_mem: "collect ms = Inl err \<Longrightarrow> Inl err \<in> set ms"
  by (induction ms arbitrary: err) (auto simp: and_then_eq_Inl)

lemma collect_fails: "Inl err \<in> set ms \<Longrightarrow> \<exists>err'. collect ms = Inl err'"
proof (induction ms)
  case Nil
  then show ?case by simp
next
  case (Cons m ms)
  show ?case
  proof (cases m)
    case (Inl a)
    then show ?thesis by simp
  next
    case (Inr b)
    with Cons obtain err' where "collect ms = Inl err'" by auto
    with Inr show ?thesis by simp
  qed
qed








section \<open>Missing fields\<close>

lemma raises_Inl [simp]: "raises (Inl err) = (err \<noteq> NotModelled)"
  by (simp add: raises_def)

lemma raises_Inr [simp]: "\<not> raises (Inr v)"
  by (simp add: raises_def)

lemma raises_and_then: "raises m \<Longrightarrow> raises (and_then m f)"
  by (cases m) simp_all

lemma raises_step:
  "modelled m \<Longrightarrow> (\<And>x. m = Inr x \<Longrightarrow> raises (f x)) \<Longrightarrow> raises (and_then m f)"
  by (cases m) (simp_all add: modelled_def)

lemma modelled_step:
  "modelled m \<Longrightarrow> (\<And>x. m = Inr x \<Longrightarrow> modelled (f x)) \<Longrightarrow> modelled (and_then m f)"
  by (cases m) (simp_all add: modelled_def)

lemma modelled_Inr [simp]: "modelled (Inr v)"
  by (simp add: modelled_def)

lemma modelled_Inl [simp]: "modelled (Inl err) = (err \<noteq> NotModelled)"
  by (simp add: modelled_def)

lemma modelled_collect: "(\<And>m. m \<in> set ms \<Longrightarrow> modelled m) \<Longrightarrow> modelled (collect ms)"
proof (induction ms)
  case Nil
  show ?case by simp
next
  case (Cons m ms)
  show ?case
    by (auto intro!: modelled_step Cons)
qed

lemma raises_collect:
  assumes "\<And>m. m \<in> set ms \<Longrightarrow> modelled m" and "m \<in> set ms" and "raises m"
  shows "raises (collect ms)"
proof -
  from assms(3) obtain err where "m = Inl err"
    by (cases m) auto
  with assms(2) have "Inl err \<in> set ms"
    by simp
  then obtain err' where e: "collect ms = Inl err'"
    using collect_fails by blast
  moreover have "modelled (collect ms)"
    using assms(1) by (rule modelled_collect)
  ultimately show ?thesis by simp
qed

lemma modelled_py_assert [simp]: "modelled (py_assert b)"
  by (simp add: py_assert_def)

lemma modelled_getitem [simp]: "modelled (getitem d k)"
  by (simp add: getitem_def split: option.splits)

lemma modelled_tensor_at [simp]: "modelled (tensor_at d k)"
  by (auto simp: tensor_at_def as_tensor_def intro!: modelled_step split: pyval.splits)

lemma modelled_norm_index [simp]: "modelled (norm_index n i)"
  by (simp add: norm_index_def)

lemma modelled_flat_index2 [simp]: "modelled (flat_index2 d0 d1 p)"
  by (auto simp: flat_index2_def intro!: modelled_step)

lemma modelled_broadcast_idx [simp]: "modelled (broadcast_idx is js)"
  by (simp add: broadcast_idx_def)

lemma modelled_index2 [simp]: "modelled (index2 gm x idx)"
  by (auto simp: index2_def intro!: modelled_step modelled_collect split: list.splits)

lemma modelled_index1 [simp]: "modelled (index1 gm x js)"
  by (auto simp: index1_def intro!: modelled_step modelled_collect split: list.splits)

lemma modelled_cat_idx [simp]: "modelled (cat_idx ts)"
  by (simp add: cat_idx_def)

lemma modelled_cat [simp]: "modelled (cat gm ts)"
  by (simp add: cat_def split: list.splits)

lemma modelled_src_idx [simp]: "modelled (get_src_permutation_idx ind)"
  by (auto simp: get_src_permutation_idx_def intro!: modelled_step)

lemma modelled_tgt_idx [simp]: "modelled (get_tgt_permutation_idx ind)"
  by (auto simp: get_tgt_permutation_idx_def intro!: modelled_step)

lemma modelled_gather [simp]: "modelled (and_then (tensor_at d k) (\<lambda>x. index2 gm x idx))"
  by (auto intro!: modelled_step)

lemma modelled_matched_targets [simp]: "modelled (matched_targets gm key targets ind)"
  by (auto simp: matched_targets_def intro!: modelled_step modelled_collect)

lemma modelled_matched_cat [simp]:
  "modelled (and_then (matched_targets gm key targets ind) (cat gm))"
  by (auto intro!: modelled_step)

lemma modelled_len [simp]: "modelled (len x)"
  by (simp add: len_def split: list.splits)

lemma raises_getitem: "\<not> has_key k d \<Longrightarrow> raises (getitem d k)"
  by (auto simp: has_key_def getitem_def map_of_eq_None_iff split: option.splits)

lemma raises_tensor_at: "\<not> has_key k d \<Longrightarrow> raises (tensor_at d k)"
  by (simp add: tensor_at_def raises_getitem raises_and_then)

lemma raises_matched_targets:
  assumes "length ind = length targets" and "t \<in> set targets" and "\<not> has_key k t"
  shows "raises (matched_targets gm k targets ind)"
proof -
  from assms(2) obtain j where j: "j < length targets" "targets ! j = t"
    by (auto simp: in_set_conv_nth)
  let ?f = "\<lambda>(t, (src, J)). and_then (getitem t k) (\<lambda>v. index1 gm v J)"
  have mem: "(t, ind ! j) \<in> set (zip targets ind)"
    using j assms(1) by (auto simp: set_zip)
  have r: "raises (?f (t, ind ! j))"
    using assms(3) by (cases "ind ! j") (simp add: raises_getitem raises_and_then)
  have m: "?f (t, ind ! j) \<in> set (map ?f (zip targets ind))"
    unfolding set_map using mem by (rule imageI)
  have "\<And>m. m \<in> set (map ?f (zip targets ind)) \<Longrightarrow> modelled m"
    by (auto intro!: modelled_step)
  then show ?thesis
    unfolding matched_targets_def using m r by (rule raises_collect)
qed

lemma raises_matched_cat:
  assumes "length ind = length targets" and "t \<in> set targets" and "\<not> has_key k t"
  shows "raises (and_then (matched_targets gm k targets ind) f)"
  using raises_matched_targets [OF assms] by (rule raises_and_then)

lemma raises_matched2:
  assumes "length ind = length targets" and "t \<in> set targets" and "\<not> has_key k t"
  shows "raises (and_then (and_then (matched_targets gm k targets ind) g) f)"
  by (intro raises_and_then raises_matched_targets [OF assms])

lemma raises_collect_getitem:
  assumes "t \<in> set targets" and "\<not> has_key k t"
  shows "raises (and_then (collect (map (\<lambda>t. getitem t k) targets)) f)"
proof (rule raises_and_then, rule raises_collect)
  show "getitem t k \<in> set (map (\<lambda>t. getitem t k) targets)"
    using assms(1) by simp
  show "raises (getitem t k)"
    using assms(2) by (rule raises_getitem)
qed auto

lemma raises_collect_len:
  assumes "t \<in> set targets" and "\<not> has_key k t"
  shows "raises (and_then (collect (map (\<lambda>t. and_then (getitem t k) len) targets)) f)"
proof (rule raises_and_then, rule raises_collect)
  show "and_then (getitem t k) len \<in> set (map (\<lambda>t. and_then (getitem t k) len) targets)"
    using assms(1) by simp
  show "raises (and_then (getitem t k) len)"
    using assms(2) by (intro raises_and_then raises_getitem)
qed (auto intro!: modelled_step)

lemma py_assert_False [simp]: "py_assert False = Inl AssertionError"
  by (simp add: py_assert_def)

lemma py_assert_True [simp]: "py_assert True = Inr ()"
  by (simp add: py_assert_def)

lemma labels_no_output: "\<not> has_key ''pred_logits'' outputs \<Longrightarrow>
    loss_labels e self gm outputs targets ind nb lg = Inl AssertionError"
  by (simp add: loss_labels_def)

lemma cardinality_no_output: "\<not> has_key ''pred_logits'' outputs \<Longrightarrow>
    raises (loss_cardinality self gm outputs targets ind nb)"
  by (simp add: loss_cardinality_def raises_and_then raises_tensor_at)

lemma boxes_no_output: "\<not> has_key ''pred_boxes'' outputs \<Longrightarrow>
    loss_boxes e self gm outputs targets ind nb = Inl AssertionError"
  by (simp add: loss_boxes_def)

lemma masks_no_output: "\<not> has_key ''pred_masks'' outputs \<Longrightarrow>
    loss_masks e self gm outputs targets ind nb = Inl AssertionError"
  by (simp add: loss_masks_def)

lemma bev_no_output: "\<not> has_key ''pred_bev'' outputs \<Longrightarrow>
    loss_bev self gm outputs targets ind nb = Inl AssertionError"
  by (simp add: loss_bev_def)

lemma head_no_output: "\<not> has_key ''pred_head_bev'' outputs \<Longrightarrow>
    loss_head self gm outputs targets ind nb = Inl AssertionError"
  by (simp add: loss_head_def)

lemma feet_no_output: "\<not> has_key ''pred_feet_bev'' outputs \<Longrightarrow>
    loss_feet self gm outputs targets ind nb = Inl AssertionError"
  by (simp add: loss_feet_def)

lemma dims_no_output: "\<not> has_key ''pred_dim'' outputs \<Longrightarrow>
    loss_dims self gm outputs targets ind nb = Inl AssertionError"
  by (simp add: loss_dims_def)

lemma depth_no_output:
  "\<not> has_key ''pred_depth_bin'' outputs \<or> \<not> has_key ''pred_depth_delta'' outputs \<Longrightarrow>
    loss_depth_multi_bin self gm outputs targets ind nb = Inl AssertionError"
  by (cases "has_key ''pred_depth_bin'' outputs") (auto simp: loss_depth_multi_bin_def)

lemma angles_no_output: "\<not> has_key ''pred_angle'' outputs \<Longrightarrow>
    raises (loss_angles e self gm outputs targets ind nb)"
  unfolding loss_angles_def
  by (rule raises_step, simp) (intro raises_and_then raises_tensor_at)

lemma labels_no_target:
  assumes "length ind = length targets" and "t \<in> set targets" and "\<not> has_key ''labels'' t"
  shows "raises (loss_labels e self gm outputs targets ind nb lg)"
  unfolding loss_labels_def
  by ((rule raises_matched2 [OF assms]) | (rule raises_step, simp))+

lemma cardinality_no_target:
  assumes "t \<in> set targets" and "\<not> has_key ''labels'' t"
  shows "raises (loss_cardinality self gm outputs targets ind nb)"
  unfolding loss_cardinality_def
  by ((rule raises_collect_len [OF assms]) | (rule raises_step, simp))+

lemma boxes_no_target:
  assumes "length ind = length targets" and "t \<in> set targets" and "\<not> has_key ''boxes'' t"
  shows "raises (loss_boxes e self gm outputs targets ind nb)"
  unfolding loss_boxes_def
  by ((rule raises_matched2 [OF assms]) | (rule raises_step, simp))+

lemma masks_no_target:
  assumes "t \<in> set targets" and "\<not> has_key ''masks'' t"
  shows "raises (loss_masks e self gm outputs targets ind nb)"
  unfolding loss_masks_def
  by ((rule raises_collect_getitem [OF assms]) | (rule raises_step, simp))+

lemma bev_no_target:
  assumes "length ind = length targets" and "t \<in> set targets" and "\<not> has_key ''bev'' t"
  shows "raises (loss_bev self gm outputs targets ind nb)"
    and "raises (loss_head self gm outputs targets ind nb)"
    and "raises (loss_feet self gm outputs targets ind nb)"
  unfolding loss_bev_def loss_head_def loss_feet_def Let_def
  by ((rule raises_matched2 [OF assms]) | (rule raises_step, simp))+

lemma dims_no_target:
  assumes "length ind = length targets" and "t \<in> set targets" and "\<not> has_key ''dim'' t"
  shows "raises (loss_dims self gm outputs targets ind nb)"
  unfolding loss_dims_def
  by ((rule raises_matched2 [OF assms]) | (rule raises_step, simp))+

lemma depth_no_target:
  assumes "length ind = length targets" and "t \<in> set targets" and "\<not> has_key ''depth'' t"
  shows "raises (loss_depth_multi_bin self gm outputs targets ind nb)"
  unfolding loss_depth_multi_bin_def
  by ((rule raises_matched2 [OF assms]) | (rule raises_step, simp))+

lemma angles_no_target:
  assumes "length ind = length targets" and "t \<in> set targets"
    and "\<not> has_key ''heading_bin'' t \<or> \<not> has_key ''heading_res'' t"
  shows "raises (loss_angles e self gm outputs targets ind nb)"
proof (cases "has_key ''heading_bin'' t")
  case False
  show ?thesis
    unfolding loss_angles_def
    by ((rule raises_matched2 [OF assms(1,2) False]) | (rule raises_step, simp))+
next
  case True
  with assms(3) have h: "\<not> has_key ''heading_res'' t" by simp
  show ?thesis
    unfolding loss_angles_def
    by ((rule raises_matched2 [OF assms(1,2) h]) | (rule raises_step, simp))+
qed

lemma raises_no_kwargs: "raises r \<Longrightarrow> raises (no_kwargs kw r)"
  by (cases kw) (simp_all add: no_kwargs_def)

lemma loss_map_keys_cases:
  assumes "loss \<in> set loss_map_keys"
  obtains "loss = ''labels''" | "loss = ''cardinality''" | "loss = ''boxes''"
    | "loss = ''masks''" | "loss = ''bev''" | "loss = ''dim''" | "loss = ''angle''"
    | "loss = ''depth''" | "loss = ''head''" | "loss = ''feet''"
proof -
  have "loss = ''labels'' \<or> loss = ''cardinality'' \<or> loss = ''boxes'' \<or> loss = ''masks''
      \<or> loss = ''bev'' \<or> loss = ''dim'' \<or> loss = ''angle'' \<or> loss = ''depth''
      \<or> loss = ''head'' \<or> loss = ''feet''"
    using assms unfolding loss_map_keys_def by (simp only: list.set insert_iff empty_iff simp_thms)
  then show ?thesis
    using that by (elim disjE)
qed

subsection \<open>Dispatch\<close>

lemma get_loss_labels:
  "get_loss e self gm ''labels'' outputs targets ind nb kw
   = loss_labels e self gm outputs targets ind nb (case kw of None \<Rightarrow> True | Some b \<Rightarrow> b)"
  by (simp add: get_loss_def loss_map_keys_def)

lemma get_loss_cardinality:
  "get_loss e self gm ''cardinality'' outputs targets ind nb kw
   = no_kwargs kw (loss_cardinality self gm outputs targets ind nb)"
  by (simp add: get_loss_def loss_map_keys_def)

lemma get_loss_boxes:
  "get_loss e self gm ''boxes'' outputs targets ind nb kw
   = no_kwargs kw (loss_boxes e self gm outputs targets ind nb)"
  by (simp add: get_loss_def loss_map_keys_def)

lemma get_loss_masks:
  "get_loss e self gm ''masks'' outputs targets ind nb kw
   = no_kwargs kw (loss_masks e self gm outputs targets ind nb)"
  by (simp add: get_loss_def loss_map_keys_def)

lemma get_loss_bev:
  "get_loss e self gm ''bev'' outputs targets ind nb kw
   = no_kwargs kw (loss_bev self gm outputs targets ind nb)"
  by (simp add: get_loss_def loss_map_keys_def)

lemma get_loss_dim:
  "get_loss e self gm ''dim'' outputs targets ind nb kw
   = no_kwargs kw (loss_dims self gm outputs targets ind nb)"
  by (simp add: get_loss_def loss_map_keys_def)

lemma get_loss_angle:
  "get_loss e self gm ''angle'' outputs targets ind nb kw
   = no_kwargs kw (loss_angles e self gm outputs targets ind nb)"
  by (simp add: get_loss_def loss_map_keys_def)

lemma get_loss_depth:
  "get_loss e self gm ''depth'' outputs targets ind nb kw
   = no_kwargs kw (loss_depth_multi_bin self gm outputs targets ind nb)"
  by (simp add: get_loss_def loss_map_keys_def)

lemma get_loss_head:
  "get_loss e self gm ''head'' outputs targets ind nb kw
   = no_kwargs kw (loss_head self gm outputs targets ind nb)"
  by (simp add: get_loss_def loss_map_keys_def)

lemma get_loss_feet:
  "get_loss e self gm ''feet'' outputs targets ind nb kw
   = no_kwargs kw (loss_feet self gm outputs targets ind nb)"
  by (simp add: get_loss_def loss_map_keys_def)

lemmas get_loss_simps = get_loss_labels get_loss_cardinality get_loss_boxes get_loss_masks
  get_loss_bev get_loss_dim get_loss_angle get_loss_depth get_loss_head get_loss_feet

lemma required_output_keys_simps:
  "required_output_keys ''labels'' = [''pred_logits'']"
  "required_output_keys ''cardinality'' = [''pred_logits'']"
  "required_output_keys ''boxes'' = [''pred_boxes'']"
  "required_output_keys ''masks'' = [''pred_masks'']"
  "required_output_keys ''bev'' = [''pred_bev'']"
  "required_output_keys ''dim'' = [''pred_dim'']"
  "required_output_keys ''angle'' = [''pred_angle'']"
  "required_output_keys ''depth'' = [''pred_depth_bin'', ''pred_depth_delta'']"
  "required_output_keys ''head'' = [''pred_head_bev'']"
  "required_output_keys ''feet'' = [''pred_feet_bev'']"
  by (simp_all add: required_output_keys_def)

lemma required_target_keys_simps:
  "required_target_keys ''labels'' = [''labels'']"
  "required_target_keys ''cardinality'' = [''labels'']"
  "required_target_keys ''boxes'' = [''boxes'']"
  "required_target_keys ''masks'' = [''masks'']"
  "required_target_keys ''bev'' = [''bev'']"
  "required_target_keys ''dim'' = [''dim'']"
  "required_target_keys ''angle'' = [''heading_bin'', ''heading_res'']"
  "required_target_keys ''depth'' = [''depth'']"
  "required_target_keys ''head'' = [''bev'']"
  "required_target_keys ''feet'' = [''bev'']"
  by (simp_all add: required_target_keys_def)

lemma get_loss_no_output:
  assumes "loss \<in> set loss_map_keys" and k: "k \<in> set (required_output_keys loss)"
    and nk: "\<not> has_key k outputs"
  shows "raises (get_loss e self gm loss outputs targets ind nb kw)"
  using assms(1)
proof (cases rule: loss_map_keys_cases)
  case 1
  from k nk show ?thesis
    unfolding 1 required_output_keys_simps get_loss_simps
    by (simp add: labels_no_output raises_no_kwargs)
next
  case 2
  from k nk show ?thesis
    unfolding 2 required_output_keys_simps get_loss_simps
    by (simp add: cardinality_no_output raises_no_kwargs)
next
  case 3
  from k nk show ?thesis
    unfolding 3 required_output_keys_simps get_loss_simps
    by (simp add: boxes_no_output raises_no_kwargs)
next
  case 4
  from k nk show ?thesis
    unfolding 4 required_output_keys_simps get_loss_simps
    by (simp add: masks_no_output raises_no_kwargs)
next
  case 5
  from k nk show ?thesis
    unfolding 5 required_output_keys_simps get_loss_simps
    by (simp add: bev_no_output raises_no_kwargs)
next
  case 6
  from k nk show ?thesis
    unfolding 6 required_output_keys_simps get_loss_simps
    by (simp add: dims_no_output raises_no_kwargs)
next
  case 7
  from k nk show ?thesis
    unfolding 7 required_output_keys_simps get_loss_simps
    by (simp add: angles_no_output raises_no_kwargs)
next
  case 8
  from k nk have "\<not> has_key ''pred_depth_bin'' outputs \<or> \<not> has_key ''pred_depth_delta'' outputs"
    unfolding 8 required_output_keys_simps by auto
  then show ?thesis
    unfolding 8 get_loss_depth by (simp add: depth_no_output raises_no_kwargs)
next
  case 9
  from k nk show ?thesis
    unfolding 9 required_output_keys_simps get_loss_simps
    by (simp add: head_no_output raises_no_kwargs)
next
  case 10
  from k nk show ?thesis
    unfolding 10 required_output_keys_simps get_loss_simps
    by (simp add: feet_no_output raises_no_kwargs)
qed

lemma get_loss_no_target:
  assumes len: "length ind = length targets"
    and "loss \<in> set loss_map_keys" and k: "k \<in> set (required_target_keys loss)"
    and t: "t \<in> set targets" and nk: "\<not> has_key k t"
  shows "raises (get_loss e self gm loss outputs targets ind nb kw)"
  using assms(2)
proof (cases rule: loss_map_keys_cases)
  case 1
  from k nk have h: "\<not> has_key ''labels'' t"
    unfolding 1 required_target_keys_simps by simp
  show ?thesis
    unfolding 1 get_loss_simps by (intro labels_no_target [OF len t h])
next
  case 2
  from k nk have h: "\<not> has_key ''labels'' t"
    unfolding 2 required_target_keys_simps by simp
  show ?thesis
    unfolding 2 get_loss_simps by (intro raises_no_kwargs cardinality_no_target [OF t h])
next
  case 3
  from k nk have h: "\<not> has_key ''boxes'' t"
    unfolding 3 required_target_keys_simps by simp
  show ?thesis
    unfolding 3 get_loss_simps by (intro raises_no_kwargs boxes_no_target [OF len t h])
next
  case 4
  from k nk have h: "\<not> has_key ''masks'' t"
    unfolding 4 required_target_keys_simps by simp
  show ?thesis
    unfolding 4 get_loss_simps by (intro raises_no_kwargs masks_no_target [OF t h])
next
  case 5
  from k nk have h: "\<not> has_key ''bev'' t"
    unfolding 5 required_target_keys_simps by simp
  show ?thesis
    unfolding 5 get_loss_simps by (intro raises_no_kwargs bev_no_target(1) [OF len t h])
next
  case 6
  from k nk have h: "\<not> has_key ''dim'' t"
    unfolding 6 required_target_keys_simps by simp
  show ?thesis
    unfolding 6 get_loss_simps by (intro raises_no_kwargs dims_no_target [OF len t h])
next
  case 7
  from k nk have h: "\<not> has_key ''heading_bin'' t \<or> \<not> has_key ''heading_res'' t"
    unfolding 7 required_target_keys_simps by auto
  show ?thesis
    unfolding 7 get_loss_angle by (intro raises_no_kwargs angles_no_target [OF len t h])
next
  case 8
  from k nk have h: "\<not> has_key ''depth'' t"
    unfolding 8 required_target_keys_simps by simp
  show ?thesis
    unfolding 8 get_loss_simps by (intro raises_no_kwargs depth_no_target [OF len t h])
next
  case 9
  from k nk have h: "\<not> has_key ''bev'' t"
    unfolding 9 required_target_keys_simps by simp
  show ?thesis
    unfolding 9 get_loss_simps by (intro raises_no_kwargs bev_no_target(2) [OF len t h])
next
  case 10
  from k nk have h: "\<not> has_key ''bev'' t"
    unfolding 10 required_target_keys_simps by simp
  show ?thesis
    unfolding 10 get_loss_simps by (intro raises_no_kwargs bev_no_target(3) [OF len t h])
qed

text \<open>
  C7: every per-task loss fails when a key it requires is absent from the outputs or from
  a target, and \<^verbatim>\<open>get_loss\<close> fails for a name outside the ten of \<^verbatim>\<open>loss_map\<close>; no
  call returns a value in these cases. The matching has one entry per target (the losses
  pair targets and matching with \<^verbatim>\<open>zip\<close>).
\<close>

theorem missing_field_fails:
  assumes "length ind = length targets"
  shows "(loss \<in> set loss_map_keys \<and> k \<in> set (required_output_keys loss)
            \<and> \<not> has_key k outputs
          \<longrightarrow> raises (get_loss e self gm loss outputs targets ind nb kw))
       \<and> (loss \<in> set loss_map_keys \<and> k \<in> set (required_target_keys loss)
            \<and> t \<in> set targets \<and> \<not> has_key k t
          \<longrightarrow> raises (get_loss e self gm loss outputs targets ind nb kw))
       \<and> (loss \<notin> set loss_map_keys
          \<longrightarrow> get_loss e self gm loss outputs targets ind nb kw = Inl AssertionError)"
proof (intro conjI impI)
  assume "loss \<in> set loss_map_keys \<and> k \<in> set (required_output_keys loss)
            \<and> \<not> has_key k outputs"
  then show "raises (get_loss e self gm loss outputs targets ind nb kw)"
    by (intro get_loss_no_output [where k = k]) simp_all
next
  assume "loss \<in> set loss_map_keys \<and> k \<in> set (required_target_keys loss)
            \<and> t \<in> set targets \<and> \<not> has_key k t"
  then show "raises (get_loss e self gm loss outputs targets ind nb kw)"
    by (intro get_loss_no_target [where k = k and t = t] assms) simp_all
next
  assume "loss \<notin> set loss_map_keys"
  then show "get_loss e self gm loss outputs targets ind nb kw = Inl AssertionError"
    by (simp add: get_loss_def)
qed

theorem missing_field_fails_witness:
  "length ex_indices = length ex_targets
   \<and> raises (get_loss ex_env ex_criterion True ''depth'' ex_bundle ex_targets ex_indices 1 None)
   \<and> raises (get_loss ex_env ex_criterion True ''head'' ex_bundle ex_targets ex_indices 1 None)
   \<and> get_loss ex_env ex_criterion True ''giou'' ex_bundle ex_targets ex_indices 1 None
       = Inl AssertionError"
proof -
  have len: "length ex_indices = length ex_targets"
    by (simp add: ex_indices_def ex_targets_def)
  have a: "''depth'' \<in> set loss_map_keys \<and> ''depth'' \<in> set (required_target_keys ''depth'')
        \<and> hd ex_targets \<in> set ex_targets \<and> \<not> has_key ''depth'' (hd ex_targets)"
    by (simp add: loss_map_keys_def required_target_keys_def ex_targets_def has_key_def)
  have b: "''head'' \<in> set loss_map_keys \<and> ''pred_head_bev'' \<in> set (required_output_keys ''head'')
        \<and> \<not> has_key ''pred_head_bev'' ex_bundle"
    by (simp add: loss_map_keys_def required_output_keys_def ex_bundle_def has_key_def)
  have c: "''giou'' \<notin> set loss_map_keys"
    by (simp add: loss_map_keys_def)
  show ?thesis
    using len a b c
      missing_field_fails [OF len, where loss = "''depth''" and k = "''depth''"
        and t = "hd ex_targets" and outputs = ex_bundle and e = ex_env
        and self = ex_criterion and gm = True and nb = 1 and kw = None]
      missing_field_fails [OF len, where loss = "''head''" and k = "''pred_head_bev''"
        and t = "hd ex_targets" and outputs = ex_bundle and e = ex_env
        and self = ex_criterion and gm = True and nb = 1 and kw = None]
      missing_field_fails [OF len, where loss = "''giou''" and k = "''x''"
        and t = "hd ex_targets" and outputs = ex_bundle and e = ex_env
        and self = ex_criterion and gm = True and nb = 1 and kw = None]
    by blast
qed

section \<open>Names of the results\<close>















subsection \<open>Dictionaries\<close>


lemma map_of_dict_update:
  "map_of (dict_update d e) = map_of d ++ map_of (rev e)"
  unfolding dict_update_def
proof (induction e arbitrary: d)
  case Nil
  show ?case by simp
next
  case (Cons p e)
  obtain k v where p: "p = (k, v)" by (cases p)
  let ?f = "\<lambda>(k, v). AList.update k v"
  have u: "map_of (AList.update k v d) = (map_of d)(k \<mapsto> v)"
    by (rule update_conv')
  have "map_of (fold ?f (p # e) d) = map_of (fold ?f e (AList.update k v d))"
    by (simp add: p)
  also have "\<dots> = (map_of d)(k \<mapsto> v) ++ map_of (rev e)"
    using Cons [of "AList.update k v d"] by (simp only: u)
  also have "\<dots> = (map_of d ++ [k \<mapsto> v]) ++ map_of (rev e)"
    by simp
  also have "\<dots> = map_of d ++ ([k \<mapsto> v] ++ map_of (rev e))"
    by (simp only: map_add_assoc)
  also have "[k \<mapsto> v] ++ map_of (rev e) = map_of (rev (p # e))"
    by (simp add: p)
  finally show ?case .
qed


subsection \<open>The loops of the forward pass\<close>







subsection \<open>Suffixed names\<close>

















lemma has_key_map_of: "has_key k d = (map_of d k \<noteq> None)"
  by (simp add: has_key_def map_of_eq_None_iff)





section \<open>Facts about tensors\<close>

lemma row_at_0: "row_at w xs 0 = take w xs"
  by (simp add: row_at_def)

lemma row_at_Suc: "row_at w xs (Suc k) = row_at w (drop w xs) k"
  by (simp add: row_at_def add.commute)

lemma length_row_at: "(k + 1) * w \<le> length xs \<Longrightarrow> length (row_at w xs k) = w"
  by (simp add: row_at_def)

lemma concat_rows: "length xs = n * w \<Longrightarrow> concat (map (row_at w xs) [0..<n]) = xs"
proof (induction n arbitrary: xs)
  case 0
  then show ?case by simp
next
  case (Suc n)
  have "[0..<Suc n] = 0 # map Suc [0..<n]"
    by (simp add: upt_conv_Cons map_Suc_upt del: upt_Suc)
  then have "concat (map (row_at w xs) [0..<Suc n])
             = take w xs @ concat (map (row_at w (drop w xs)) [0..<n])"
    by (simp add: row_at_0 row_at_Suc comp_def del: upt_Suc)
  moreover have "length (drop w xs) = n * w"
    using Suc.prems by simp
  ultimately show ?case
    using Suc.IH [of "drop w xs"] by simp
qed

lemma rows_concat: "length xs = n * w \<Longrightarrow> concat (rows n w xs) = xs"
  by (simp add: rows_def concat_rows)

lemma expand_same: "length xs = numel s \<Longrightarrow> expand s s xs = xs"
proof (induction s arbitrary: xs)
  case Nil
  show ?case by simp
next
  case (Cons d s)
  have len: "length xs = d * numel s"
    using Cons.prems by (simp add: numel_def)
  have m: "map (\<lambda>k. expand s s (row_at (numel s) xs k)) [0..<d] = map (row_at (numel s) xs) [0..<d]"
  proof (intro map_cong refl Cons.IH)
    fix k assume "k \<in> set [0..<d]"
    then have "Suc k \<le> d"
      by simp
    then have "Suc k * numel s \<le> d * numel s"
      by (rule mult_le_mono1)
    then show "length (row_at (numel s) xs k) = numel s"
      using len by (intro length_row_at) simp
  qed
  have "expand (d # s) (d # s) xs = concat (map (\<lambda>k. expand s s (row_at (numel s) xs k)) [0..<d])"
    by simp
  also have "\<dots> = concat (map (row_at (numel s) xs) [0..<d])"
    by (simp only: m)
  also have "\<dots> = xs"
    by (rule concat_rows [OF len])
  finally show ?case .
qed

lemma bshape_rev_same: "bshape_rev s s = Some s"
  by (induction s) simp_all

lemma broadcast_shape_same: "broadcast_shape s s = Some s"
  by (simp add: broadcast_shape_def bshape_rev_same)

lemma elementwise_same_shape:
  assumes "shape a = shape b" and "wf_tensor a" and "wf_tensor b"
  shows "elementwise gm f a b
         = Inr (Tensor (shape a) (map2 f (vals a) (vals b))
                  (gm \<and> (requires_grad a \<or> requires_grad b)))"
  using assms
  by (simp add: elementwise_def broadcast_shape_same pad_shape_def expand_same wf_tensor_def)

lemma elementwise_row_vs_matrix:
  assumes "shape a = [d]" and "shape b = [1, d]" and "wf_tensor a" and "wf_tensor b"
  shows "elementwise gm f a b
         = Inr (Tensor [1, d] (map2 f (vals a) (vals b))
                  (gm \<and> (requires_grad a \<or> requires_grad b)))"
proof -
  have "broadcast_shape [d] [1, d] = Some [1, d]"
    by (simp add: broadcast_shape_def)
  moreover have "pad_shape [1, d] [d] = [1, d]" "pad_shape [1, d] [1, d] = [1, d]"
    by (simp_all add: pad_shape_def)
  moreover have "expand [1, d] [1, d] (vals a) = vals a" "expand [1, d] [1, d] (vals b) = vals b"
    using assms expand_same [of "vals a" "[1, d]"] expand_same [of "vals b" "[1, d]"]
    by (simp_all add: wf_tensor_def numel_def del: expand.simps)
  ultimately show ?thesis
    using assms(1,2) by (simp add: elementwise_def del: expand.simps)
qed

section \<open>The three point losses\<close>

lemma tensor_at_has_key: "tensor_at outputs k = Inr x \<Longrightarrow> has_key k outputs"
  by (auto simp: tensor_at_def getitem_def has_key_map_of and_then_eq_Inr split: option.splits)

lemma wf_squeeze: "wf_tensor p \<Longrightarrow> shape p = [m, 2] \<Longrightarrow> wf_tensor (squeeze p)"
  by (simp add: wf_tensor_def squeeze_def numel_def)

lemma point_l1:
  assumes "point_pair m p t"
  shows "l1_loss gm (squeeze p) t NoReduction
         = Inr (Tensor [m, 2] (map2 (\<lambda>u v. \<bar>u - v\<bar>) (vals p) (vals t))
                  (gm \<and> (requires_grad p \<or> requires_grad t)))"
proof (cases "m = 1")
  case True
  have "shape (squeeze p) = [2]" "shape t = [1, 2]"
    using assms True by (simp_all add: point_pair_def squeeze_def)
  moreover have "wf_tensor (squeeze p)" "wf_tensor t"
    using assms wf_squeeze by (simp_all add: point_pair_def)
  ultimately show ?thesis
    using True by (simp add: l1_loss_def elementwise_row_vs_matrix squeeze_def)
next
  case False
  have "shape (squeeze p) = shape t"
    using assms False by (simp add: point_pair_def squeeze_def)
  moreover have "wf_tensor (squeeze p)" "wf_tensor t"
    using assms wf_squeeze by (simp_all add: point_pair_def)
  ultimately show ?thesis
    using assms by (simp add: l1_loss_def elementwise_same_shape squeeze_def point_pair_def)
qed

lemma point_loss_value:
  assumes p: "matched_points gm key outputs ind = Inr p"
    and t: "matched_field gm ''bev'' targets ind = Inr t"
    and pp: "point_pair m p t"
  shows "and_then (py_assert (has_key key outputs)) (\<lambda>u.
         and_then (get_src_permutation_idx ind) (\<lambda>idx.
         and_then (and_then (tensor_at outputs key) (\<lambda>x. index2 gm x idx)) (\<lambda>gathered.
         let src_bev = squeeze gathered in
         and_then (and_then (matched_targets gm ''bev'' targets ind) (cat gm)) (\<lambda>target_bev.
         and_then (l1_loss gm src_bev target_bev NoReduction) (\<lambda>loss.
         Inr [(name, div_scalar gm (torch_sum gm loss) nb)])))))
       = Inr [(name, Tensor [] [l1_sum (vals p) (vals t) / nb]
                       (gm \<and> (requires_grad p \<or> requires_grad t)))]"
proof -
  from p obtain idx x where idx: "get_src_permutation_idx ind = Inr idx"
    and x: "tensor_at outputs key = Inr x" and g: "index2 gm x idx = Inr p"
    unfolding matched_points_def and_then_eq_Inr by blast
  have hk: "has_key key outputs"
    using x by (rule tensor_at_has_key)
  show ?thesis
    using t [unfolded matched_field_def]
    by (simp add: hk idx x g point_l1 [OF pp] div_scalar_def torch_sum_def map_tensor_def
        l1_sum_def)
qed

text \<open>
  C9: \<^verbatim>\<open>loss_bev\<close>, \<^verbatim>\<open>loss_head\<close> and \<^verbatim>\<open>loss_feet\<close> each return the summed absolute
  difference between their matched predicted points and the matched targets' \<^verbatim>\<open>'bev'\<close>
  points, divided by the denominator. When the three matched predictions hold the same
  numbers, the three values are the same.
\<close>

theorem point_losses_agree:
  assumes "matched_points gm ''pred_bev'' outputs ind = Inr p1"
    and "matched_points gm ''pred_head_bev'' outputs ind = Inr p2"
    and "matched_points gm ''pred_feet_bev'' outputs ind = Inr p3"
    and "matched_field gm ''bev'' targets ind = Inr t"
    and "point_pair m p1 t" and "point_pair m p2 t" and "point_pair m p3 t"
  shows "loss_bev self gm outputs targets ind nb
           = Inr [(''loss_bev'', Tensor [] [l1_sum (vals p1) (vals t) / nb]
                                   (gm \<and> (requires_grad p1 \<or> requires_grad t)))]
       \<and> loss_head self gm outputs targets ind nb
           = Inr [(''loss_head_bev'', Tensor [] [l1_sum (vals p2) (vals t) / nb]
                                        (gm \<and> (requires_grad p2 \<or> requires_grad t)))]
       \<and> loss_feet self gm outputs targets ind nb
           = Inr [(''loss_feet_bev'', Tensor [] [l1_sum (vals p3) (vals t) / nb]
                                        (gm \<and> (requires_grad p3 \<or> requires_grad t)))]
       \<and> (vals p1 = vals p2 \<and> vals p2 = vals p3 \<longrightarrow>
            map (vals \<circ> snd) (projr (loss_bev self gm outputs targets ind nb))
              = map (vals \<circ> snd) (projr (loss_head self gm outputs targets ind nb))
          \<and> map (vals \<circ> snd) (projr (loss_head self gm outputs targets ind nb))
              = map (vals \<circ> snd) (projr (loss_feet self gm outputs targets ind nb)))"
proof -
  have b: "loss_bev self gm outputs targets ind nb
           = Inr [(''loss_bev'', Tensor [] [l1_sum (vals p1) (vals t) / nb]
                                   (gm \<and> (requires_grad p1 \<or> requires_grad t)))]"
    unfolding loss_bev_def by (rule point_loss_value [OF assms(1) assms(4) assms(5)])
  have h: "loss_head self gm outputs targets ind nb
           = Inr [(''loss_head_bev'', Tensor [] [l1_sum (vals p2) (vals t) / nb]
                                        (gm \<and> (requires_grad p2 \<or> requires_grad t)))]"
    unfolding loss_head_def by (rule point_loss_value [OF assms(2) assms(4) assms(6)])
  have f: "loss_feet self gm outputs targets ind nb
           = Inr [(''loss_feet_bev'', Tensor [] [l1_sum (vals p3) (vals t) / nb]
                                        (gm \<and> (requires_grad p3 \<or> requires_grad t)))]"
    unfolding loss_feet_def by (rule point_loss_value [OF assms(3) assms(4) assms(7)])
  show ?thesis
    unfolding b h f by simp
qed

theorem point_losses_agree_witness:
  "matched_points True ''pred_bev'' ex_point_bundle ex_indices = Inr (ex_points True)
   \<and> matched_points True ''pred_head_bev'' ex_point_bundle ex_indices = Inr (ex_points True)
   \<and> matched_points True ''pred_feet_bev'' ex_point_bundle ex_indices = Inr (ex_points False)
   \<and> matched_field True ''bev'' ex_targets ex_indices = Inr ex_bev
   \<and> point_pair 3 (ex_points True) ex_bev \<and> point_pair 3 (ex_points False) ex_bev
   \<and> loss_bev ex_criterion True ex_point_bundle ex_targets ex_indices (5 / 2)
       = Inr [(''loss_bev'', Tensor [] [22 / 5] True)]
   \<and> loss_head ex_criterion True ex_point_bundle ex_targets ex_indices (5 / 2)
       = Inr [(''loss_head_bev'', Tensor [] [22 / 5] True)]
   \<and> loss_feet ex_criterion True ex_point_bundle ex_targets ex_indices (5 / 2)
       = Inr [(''loss_feet_bev'', Tensor [] [22 / 5] False)]"
proof -
  have p1: "matched_points True ''pred_bev'' ex_point_bundle ex_indices = Inr (ex_points True)"
    by code_simp
  have p2: "matched_points True ''pred_head_bev'' ex_point_bundle ex_indices = Inr (ex_points True)"
    by code_simp
  have p3: "matched_points True ''pred_feet_bev'' ex_point_bundle ex_indices = Inr (ex_points False)"
    by code_simp
  have t: "matched_field True ''bev'' ex_targets ex_indices = Inr ex_bev"
    by code_simp
  have a: "point_pair 3 (ex_points True) ex_bev"
    by code_simp
  have b: "point_pair 3 (ex_points False) ex_bev"
    by code_simp
  have v: "l1_sum (vals (ex_points True)) (vals ex_bev) = 11"
    "l1_sum (vals (ex_points False)) (vals ex_bev) = 11"
    by code_simp+
  have r: "requires_grad (ex_points True)" "\<not> requires_grad (ex_points False)"
    "\<not> requires_grad ex_bev"
    by (simp_all add: ex_points_def ex_bev_def)
  show ?thesis
    using point_losses_agree [OF p1 p2 p3 t a a b, of ex_criterion "5 / 2"] p1 p2 p3 t a b
    by (simp add: v r)
qed

section \<open>Cardinality\<close>

lemma row_at_map_upt:
  assumes "b < n"
  shows "row_at w (map g [0..<n * w]) b = map (\<lambda>q. g (b * w + q)) [0..<w]"
proof -
  have "(b + 1) * w \<le> n * w"
    using assms by (intro mult_le_mono1) simp
  then have le: "b * w + w \<le> n * w"
    by (simp add: algebra_simps)
  have "row_at w (map g [0..<n * w]) b = map g (take w (drop (b * w) [0..<n * w]))"
    by (simp add: row_at_def take_map drop_map)
  also have "take w (drop (b * w) [0..<n * w]) = [b * w..<b * w + w]"
    using le by (simp add: drop_upt take_upt)
  also have "[b * w..<b * w + w] = map (\<lambda>q. b * w + q) [0..<w]"
    using map_add_upt [of "b * w" w] by (simp add: add.commute)
  finally show ?thesis
    by (simp add: comp_def)
qed

lemma sum_list_indicator:
  "sum_list (map (\<lambda>q. if P q then 1 else (0::real)) xs) = real (length (filter P xs))"
  by (induction xs) simp_all

lemma target_lengths:
  assumes "list_all has_labels targets"
  shows "collect (map (\<lambda>v. and_then (getitem v ''labels'') len) targets)
         = Inr (map target_count targets)"
proof -
  have "map (\<lambda>t. and_then (getitem t ''labels'') len) targets
        = map (\<lambda>t. Inr (target_count t)) targets"
    using assms
    by (intro map_cong refl)
       (auto simp: list_all_iff has_labels_def getitem_def len_def target_count_def
             split: option.splits list.splits)
  then show ?thesis
    by (simp only: collect_map_Inr)
qed

lemma map2_upt_nth:
  "length xs = n \<Longrightarrow>
     map2 f (map g [0..<n]) (map h xs) = map (\<lambda>b. f (g b) (h (xs ! b))) [0..<n]"
  by (auto intro!: nth_equalityI)

lemma argmax_last_3d:
  assumes "shape x = [B, Q, C]" and "0 < C"
  shows "argmax_last x
         = Inr (Tensor [B, Q]
                  (map (\<lambda>k. real (argmax_list (row_at C (vals x) k))) [0..<B * Q]) False)"
  using assms
  by (simp add: argmax_last_def last_dim_rows_def rows_def numel_def comp_def)

lemma card_pred_rows:
  assumes "b < B"
  shows "sum_list (row_at Q (map (\<lambda>k. if P k then 1 else (0::real)) [0..<B * Q]) b)
         = real (length (filter (\<lambda>q. P (b * Q + q)) [0..<Q]))"
  unfolding row_at_map_upt [OF assms] by (rule sum_list_indicator)

lemma not_object_iff:
  "0 < C \<Longrightarrow> (real a \<noteq> real_of_int (int C - 1)) = (a \<noteq> C - 1)"
proof -
  assume "0 < C"
  then have "real_of_int (int C - 1) = real (C - 1)"
    by (simp add: of_nat_diff)
  then show ?thesis
    by (simp only: of_nat_eq_iff)
qed

lemma card_pred_value:
  assumes sh: "shape x = [B, Q, C]" and C: "0 < C"
  shows "map sum_list (rows B Q
           (map (\<lambda>k. if real (argmax_list (row_at C (vals x) k)) \<noteq> real_of_int (int C - 1)
                       then 1 else (0::real)) [0..<B * Q]))
         = map (\<lambda>b. real (predicted_count x b)) [0..<B]"
  unfolding rows_def map_map comp_def not_object_iff [OF C]
proof (intro map_cong refl)
  fix b assume "b \<in> set [0..<B]"
  then have b: "b < B" by simp
  have "predicted_count x b
        = length (filter (\<lambda>q. argmax_list (row_at C (vals x) (b * Q + q)) \<noteq> C - 1) [0..<Q])"
    unfolding predicted_count_def query_scores_def sh by simp
  then show "sum_list (row_at Q (map (\<lambda>k. if argmax_list (row_at C (vals x) k) \<noteq> C - 1
                                            then 1 else (0::real)) [0..<B * Q]) b)
             = real (predicted_count x b)"
    using card_pred_rows [OF b, of Q "\<lambda>k. argmax_list (row_at C (vals x) k) \<noteq> C - 1"]
    by (simp only:)
qed

lemma cardinality_mean:
  assumes len: "length targets = B"
  shows "l1_loss False (Tensor [B] (map (\<lambda>b. real (predicted_count x b)) [0..<B]) False)
           (Tensor [length (map target_count targets)] (map real (map target_count targets)) False)
           MeanReduction
         = Inr (Tensor [] [cardinality_spec x targets] False)"
proof -
  let ?card = "Tensor [B] (map (\<lambda>b. real (predicted_count x b)) [0..<B]) False"
  let ?tgt = "Tensor [length (map target_count targets)] (map real (map target_count targets)) False"
  have wf: "shape ?card = shape ?tgt" "wf_tensor ?card" "wf_tensor ?tgt"
    using len by (simp_all add: wf_tensor_def numel_def)
  have v: "map2 (\<lambda>u v. \<bar>u - v\<bar>) (vals ?card) (vals ?tgt)
           = map (\<lambda>b. \<bar>real (predicted_count x b) - real (target_count (targets ! b))\<bar>)
               [0..<B]"
    using map2_upt_nth [OF len, of "\<lambda>u v. \<bar>u - v\<bar>" "\<lambda>b. real (predicted_count x b)"
        "\<lambda>t. real (target_count t)"]
    by (simp add: comp_def)
  show ?thesis
    unfolding l1_loss_def elementwise_same_shape [OF wf] and_then_Inr reduction.case v mean_def
    by (simp add: cardinality_spec_def len)
qed

lemma cardinality_value:
  assumes x: "tensor_at outputs ''pred_logits'' = Inr x"
    and sh: "shape x = [B, Q, C]" and C: "0 < C"
    and len: "length targets = B" and lab: "list_all has_labels targets"
  shows "loss_cardinality self gm outputs targets ind nb
         = Inr [(''cardinality_error'', Tensor [] [cardinality_spec x targets] False)]"
proof -
  have ne: "shape x \<noteq> []" "last (shape x) = C"
    using sh by simp_all
  have s: "sum_dim1 False
             (map_tensor False (\<lambda>v. if v \<noteq> real_of_int (int C - 1) then 1 else 0)
                (Tensor [B, Q] (map (\<lambda>k. real (argmax_list (row_at C (vals x) k))) [0..<B * Q])
                   False))
           = Inr (Tensor [B] (map (\<lambda>b. real (predicted_count x b)) [0..<B]) False)"
    using card_pred_value [OF sh C]
    by (simp add: sum_dim1_def map_tensor_def comp_def del: of_int_diff)
  show ?thesis
    unfolding loss_cardinality_def x and_then_Inr target_lengths [OF lab]
      argmax_last_3d [OF sh C] if_not_P [OF ne(1)] Let_def ne(2) s cardinality_mean [OF len]
    by (rule refl)
qed

lemma sum_list_all_zero: "list_all (\<lambda>b. f b = (0::real)) xs \<Longrightarrow> sum_list (map f xs) = 0"
  by (induction xs) simp_all

text \<open>
  C6: for logits of shape \<open>[B, Q, C]\<close> and one target per image, \<^verbatim>\<open>loss_cardinality\<close>
  returns the mean over the images of the absolute difference between the number of
  queries whose arg-max is not the last class and the number of objects of the image. It
  is zero when the two counts agree on every image. The result does not require grad,
  whatever the grad mode of the caller and the flags of the inputs.
\<close>

theorem cardinality_error_value:
  assumes "tensor_at outputs ''pred_logits'' = Inr x"
    and "shape x = [B, Q, C]" and "0 < C" and "0 < B"
    and "length targets = B" and "list_all has_labels targets"
  shows "loss_cardinality self gm outputs targets ind nb
           = Inr [(''cardinality_error'', Tensor [] [cardinality_spec x targets] False)]
       \<and> (list_all (\<lambda>b. predicted_count x b = target_count (targets ! b)) [0..<B]
            \<longrightarrow> loss_cardinality self gm outputs targets ind nb
                = Inr [(''cardinality_error'', Tensor [] [0] False)])"
proof -
  have v: "loss_cardinality self gm outputs targets ind nb
           = Inr [(''cardinality_error'', Tensor [] [cardinality_spec x targets] False)]"
    using assms(1,2,3,5,6) by (rule cardinality_value)
  have "cardinality_spec x targets = 0"
    if "list_all (\<lambda>b. predicted_count x b = target_count (targets ! b)) [0..<B]"
  proof -
    from that
    have "list_all (\<lambda>b. \<bar>real (predicted_count x b) - real (target_count (targets ! b))\<bar> = 0)
            [0..<length targets]"
      unfolding assms(5) list_all_iff by simp
    from sum_list_all_zero [OF this] show ?thesis
      by (simp add: cardinality_spec_def)
  qed
  with v show ?thesis by simp
qed

theorem cardinality_error_value_witness:
  "tensor_at ex_bundle ''pred_logits'' = Inr ex_logits
   \<and> shape ex_logits = [2, 2, 3] \<and> length ex_targets = 2 \<and> list_all has_labels ex_targets
   \<and> loss_cardinality ex_criterion True ex_bundle ex_targets ex_indices (5 / 2)
       = Inr [(''cardinality_error'', Tensor [] [1 / 2] False)]"
proof -
  have x: "tensor_at ex_bundle ''pred_logits'' = Inr ex_logits"
    by code_simp
  have sh: "shape ex_logits = [2, 2, 3]"
    by code_simp
  have len: "length ex_targets = 2"
    by code_simp
  have lab: "list_all has_labels ex_targets"
    by code_simp
  have v: "cardinality_spec ex_logits ex_targets = 1 / 2"
    by code_simp
  show ?thesis
    using cardinality_error_value [OF x sh _ _ len lab, of ex_criterion True ex_indices "5 / 2"]
      x sh len lab
    by (simp add: v)
qed

section \<open>The depth loss\<close>

lemma length_fold_update:
  "length (fold (\<lambda>(k, w) zs. zs[k := w]) kws xs) = length xs"
  by (induction kws arbitrary: xs) (simp_all add: case_prod_unfold)




lemma norm_index_nat: "i < m \<Longrightarrow> norm_index m (int i) = Inr i"
  by (simp add: norm_index_def)




















text \<open>
  C4: the depth loss is meant to return half the mean squared error of the deltas plus
  half the cross-entropy against the one-hot target bins for every non-empty matched set.
  With a single matched pair the code does not return: \<^verbatim>\<open>.squeeze()\<close> turns the
  \<open>[1, n]\<close> bin scores into a vector, and the two-index write into its zero copy is
  refused.
\<close>

theorem depth_single_pair_fails:
  "loss_depth_multi_bin ex_criterion True ex_depth_bundle ex_single_targets ex_single_indices 1
   = Inl IndexError"
  by code_simp




end
